theory Spec2Isabelle
  imports Complex_Main "HOL-Library.Sublist" "HOL-Library.AList" "HOL-Library.Multiset"
begin

section \<open>Python strings\<close>

text \<open>
  A Python \<open>str\<close> is a sequence of Unicode code points, and \<open>len\<close> counts code points.
  It is modelled as a list of natural numbers. ASCII literals are written through
  \<open>lit\<close>; other code points (accented letters, emoji) are spliced in by number.
  Python's \<open>needle in haystack\<close> on strings is the contiguous \<open>sublist\<close> of the library.
\<close>

type_synonym pystr = "nat list"

definition lit :: "string \<Rightarrow> pystr" where
  "lit s = map of_char s"

text \<open>
  \<open>str.isspace\<close>, which \<open>str.strip()\<close> and the regular-expression class \<open>\s\<close> use:
  the complete set of white-space code points of CPython.
\<close>

definition isspace :: "nat \<Rightarrow> bool" where
  "isspace c =
     ((9 \<le> c \<and> c \<le> 13) \<or> (28 \<le> c \<and> c \<le> 32) \<or> c = 133 \<or> c = 160 \<or> c = 5760
      \<or> (8192 \<le> c \<and> c \<le> 8202) \<or> c = 8232 \<or> c = 8233 \<or> c = 8239 \<or> c = 8287
      \<or> c = 12288)"

definition py_strip :: "pystr \<Rightarrow> pystr" where
  "py_strip s = rev (dropWhile isspace (rev (dropWhile isspace s)))"

text \<open>
  \<open>str.lower()\<close>, code point by code point. The case mapping is written out for
  Basic Latin and the Latin-1 Supplement (the repertoire of the Spanish texts and of
  every literal of the program), and for the five code points above U+00FF whose
  lower-case form lies in that repertoire: U+0178, U+1E9E, the Kelvin and Angstrom
  signs, and U+0130, whose lower-case form is \<open>i\<close> followed by a combining dot.
  Every other code point above U+00FF is left as it is: its lower-case form is again
  above U+00FF, and no word or pattern of the program tells such code points apart.
\<close>

definition lower_cp :: "nat \<Rightarrow> nat" where
  "lower_cp c =
     (if (65 \<le> c \<and> c \<le> 90) \<or> (192 \<le> c \<and> c \<le> 214) \<or> (216 \<le> c \<and> c \<le> 222)
      then c + 32
      else if c = 376 then 255 else if c = 7838 then 223
      else if c = 8490 then 107 else if c = 8491 then 229 else c)"

definition lower_seq :: "nat \<Rightarrow> pystr" where
  "lower_seq c = (if c = 304 then [105, 775] else [lower_cp c])"

definition py_lower :: "pystr \<Rightarrow> pystr" where
  "py_lower s = concat (map lower_seq s)"

section \<open>Python values and dictionaries\<close>

text \<open>
  A Python \<open>float\<close>: a finite number, an infinity, or not-a-number (the JSON decoder
  accepts \<open>Infinity\<close> and \<open>NaN\<close>). Finite floats are compared as the numbers they
  denote; negative zero is zero.
\<close>

datatype pyfloat = Finite real | PosInf | NegInf | NaN

text \<open>
  The values a filter dictionary holds: what \<open>detect_filters\<close> stores (strings and
  integers) and every value that the JSON decoder produces for a request body (null,
  booleans, integers, numbers with a fraction, strings, arrays and objects). Python
  integers are unbounded. An object is an association list with distinct keys.
\<close>

datatype pyval =
  PNone | PBool bool | PInt int | PFloat pyfloat | PStr pystr
  | PList "pyval list" | PDict "(pystr \<times> pyval) list"

text \<open>
  A \<open>dict\<close> is an association list with distinct keys in insertion order.
  \<open>d[k] = v\<close> replaces the value of an existing key in place and appends a new key;
  \<open>d.update(e)\<close> does so for every item of \<open>e\<close> in order.
\<close>

type_synonym pydict = "(pystr \<times> pyval) list"

definition setitem :: "pydict \<Rightarrow> pystr \<Rightarrow> pyval \<Rightarrow> pydict" where
  "setitem d k v = AList.update k v d"

definition dict_update :: "pydict \<Rightarrow> pydict \<Rightarrow> pydict" where
  "dict_update d e = fold (\<lambda>(k, v) acc. setitem acc k v) e d"

definition getitem :: "pydict \<Rightarrow> pystr \<Rightarrow> pyval option" where
  "getitem d k = map_of d k"

section \<open>Static filter vocabulary (logic/filter\_data.py)\<close>

definition BARRIOS :: "pystr list" where
  "BARRIOS = [lit ''Parque Avellaneda'', lit ''Boedo'', lit ''Microcentro'', lit ''Pilar'',
     lit ''Colegiales'', lit ''Palermo'', lit ''Belgrano'', lit ''Recoleta'', lit ''Almagro'',
     lit ''Villa Crespo'', lit ''San Isidro'', lit ''Vicente Lopez'']"

definition OPERACIONES :: "pystr list" where
  "OPERACIONES = [lit ''venta'', lit ''alquiler'']"

definition TIPOS :: "pystr list" where
  "TIPOS = [lit ''casa'', lit ''terreno'', lit ''departamento'', lit ''oficina'', lit ''ph'',
     lit ''casaquinta'']"

section \<open>Regular expressions of the extractor (logic/filters.py)\<close>

text \<open>
  \<open>re.search\<close> tries the start positions from left to right, the end of the text
  included, and returns the first match. Each pattern of the extractor is written as
  a function that matches at the start of a suffix of the text and returns group 1.
  In every pattern the greedy classes are followed by something that cannot begin
  inside the class, so the first match of the backtracking engine at a start position
  is the one with the maximal runs.
\<close>

fun re_search :: "(pystr \<Rightarrow> pystr option) \<Rightarrow> pystr \<Rightarrow> pystr option" where
  "re_search m [] = m []"
| "re_search m (c # cs) = (case m (c # cs) of Some g \<Rightarrow> Some g | None \<Rightarrow> re_search m cs)"

definition after_lit :: "pystr \<Rightarrow> pystr \<Rightarrow> pystr option" where
  "after_lit l s = (if prefix l s then Some (drop (length l) s) else None)"

text \<open>A greedy class with \<open>+\<close>: the maximal run, which must not be empty.\<close>

definition run1 :: "(nat \<Rightarrow> bool) \<Rightarrow> pystr \<Rightarrow> pystr option" where
  "run1 cls s = (let g = takeWhile cls s in if g = [] then None else Some g)"

text \<open>
  The class of the neighbourhood patterns: \<open>a-z\<close>, \<open>A-Z\<close>, the five lower-case
  vowels with acute accent (U+00E1, U+00E9, U+00ED, U+00F3, U+00FA), n with tilde
  (U+00F1) and \<open>\s\<close>.
\<close>

definition barrio_char :: "nat \<Rightarrow> bool" where
  "barrio_char c =
     ((97 \<le> c \<and> c \<le> 122) \<or> (65 \<le> c \<and> c \<le> 90) \<or> c = 225 \<or> c = 233 \<or> c = 237
      \<or> c = 243 \<or> c = 250 \<or> c = 241 \<or> isspace c)"

text \<open>The class \<open>[0-9\.]\<close>.\<close>

definition price_char :: "nat \<Rightarrow> bool" where
  "price_char c = ((48 \<le> c \<and> c \<le> 57) \<or> c = 46)"

text \<open>
  The class \<open>\d\<close> of a text pattern: every Unicode decimal digit (category Nd), and
  the value \<open>int()\<close> gives to it. Outside ASCII the decimal digits come in runs of
  ten, zero to nine; \<open>decimal_starts\<close> lists the zero of each run (Unicode 14.0, the
  tables of CPython 3.11).
\<close>

definition decimal_starts :: "nat list" where
  "decimal_starts =
    [1632, 1776, 1984, 2406, 2534, 2662, 2790, 2918, 3046, 3174, 3302, 3430, 3558, 3664,
      3792, 3872, 4160, 4240, 6112, 6160, 6470, 6608, 6784, 6800, 6992, 7088, 7232, 7248,
      42528, 43216, 43264, 43472, 43504, 43600, 44016, 65296, 66720, 68912, 69734, 69872,
      69942, 70096, 70384, 70736, 70864, 71248, 71360, 71472, 71904, 72016, 72784, 73040,
      73120, 92768, 92864, 93008, 120782, 120792, 120802, 120812, 120822, 123200, 123632,
      125264, 130032]"

definition digit_value :: "nat \<Rightarrow> nat option" where
  "digit_value c =
     (if c < 1632 then (if 48 \<le> c \<and> c \<le> 57 then Some (c - 48) else None)
      else map_option (\<lambda>z. c - z) (List.find (\<lambda>z. z \<le> c \<and> c < z + 10) decimal_starts))"

definition digit_char :: "nat \<Rightarrow> bool" where
  "digit_char c = (digit_value c \<noteq> None)"

text \<open>\<open>en ([...]+)\<close>, \<open>barrio ([...]+)\<close>, \<open>zona ([...]+)\<close>: a literal, then the run.\<close>

definition m_prep :: "pystr \<Rightarrow> pystr \<Rightarrow> pystr option" where
  "m_prep l s = (case after_lit l s of None \<Rightarrow> None | Some r \<Rightarrow> run1 barrio_char r)"

text \<open>
  \<open>de ([...]+)$\<close>: the class contains the line feed, so the run can be followed by
  the end of the text only when the maximal run reaches it.
\<close>

definition m_prep_end :: "pystr \<Rightarrow> pystr \<Rightarrow> pystr option" where
  "m_prep_end l s =
     (case after_lit l s of None \<Rightarrow> None
      | Some r \<Rightarrow> if r \<noteq> [] \<and> list_all barrio_char r then Some r else None)"

text \<open>\<open>\$?\<close>: an optional dollar sign.\<close>

fun opt_dollar :: "pystr \<Rightarrow> pystr" where
  "opt_dollar [] = []"
| "opt_dollar (c # cs) = (if c = 36 then cs else c # cs)"

text \<open>\<open>\$?\s*([0-9\.]+)\<close>, the common tail of the price patterns.\<close>

definition amount :: "pystr \<Rightarrow> pystr option" where
  "amount s = run1 price_char (dropWhile isspace (opt_dollar s))"

text \<open>\<open>hasta \$?\s*([0-9\.]+)...\<close> and the other patterns that begin with a literal;
  the optional currency group at the end always matches.\<close>

definition m_amount :: "pystr \<Rightarrow> pystr \<Rightarrow> pystr option" where
  "m_amount l s = (case after_lit l s of None \<Rightarrow> None | Some r \<Rightarrow> amount r)"

text \<open>
  \<open>precio.*?\$?\s*([0-9\.]+)...\<close>: the lazy \<open>.*?\<close> skips as few characters as
  possible, and never a line feed.
\<close>

fun lazy_skip :: "pystr \<Rightarrow> pystr option" where
  "lazy_skip [] = amount []"
| "lazy_skip (c # cs) =
     (case amount (c # cs) of Some g \<Rightarrow> Some g
      | None \<Rightarrow> if c = 10 then None else lazy_skip cs)"

definition m_precio :: "pystr \<Rightarrow> pystr option" where
  "m_precio s = (case after_lit (lit ''precio'') s of None \<Rightarrow> None | Some r \<Rightarrow> lazy_skip r)"

text \<open>
  \<open>\$?\s*([0-9\.]+)\s*(usd|dolares|pesos)\<close>, where dolares is accepted with and
  without the accent on its o: the currency word is required.
\<close>

definition currency_words :: "pystr list" where
  "currency_words = [lit ''usd'', [100, 243] @ lit ''lares'', lit ''dolares'', lit ''pesos'']"

definition m_currency :: "pystr \<Rightarrow> pystr option" where
  "m_currency s =
     (let r = dropWhile isspace (opt_dollar s);
          g = takeWhile price_char r;
          t = dropWhile isspace (dropWhile price_char r)
      in if g \<noteq> [] \<and> list_ex (\<lambda>w. prefix w t) currency_words then Some g else None)"

text \<open>\<open>(\d+)\s*amb\<close> and its like: digits, white space, a literal.\<close>

definition m_count :: "pystr \<Rightarrow> pystr \<Rightarrow> pystr option" where
  "m_count w s =
     (let g = takeWhile digit_char s;
          t = dropWhile isspace (dropWhile digit_char s)
      in if g \<noteq> [] \<and> prefix w t then Some g else None)"

text \<open>
  \<open>int(s)\<close> on what the extractor passes: a string of decimal digits, possibly
  empty. The empty string raises \<open>ValueError\<close>, which is \<open>None\<close> here. The
  interpreter's limit on the length of a digit string (4300 digits by default) is
  beyond the 1000 characters that backend/main-ai.py accepts and is not modelled;
  main.py sets no bound on the message, and texts with a longer run of digits are
  not covered there.
\<close>

definition py_int :: "pystr \<Rightarrow> int option" where
  "py_int s =
     (if s = [] \<or> \<not> list_all digit_char s then None
      else Some (foldl (\<lambda>acc c. 10 * acc + (case digit_value c of Some d \<Rightarrow> int d | None \<Rightarrow> 0))
                   0 s))"

text \<open>The first alternative that yields a value, as a \<open>for\<close> loop with \<open>break\<close>
  and as Python's \<open>or\<close> on match objects do.\<close>

fun first_some :: "'a option list \<Rightarrow> 'a option" where
  "first_some [] = None"
| "first_some (None # xs) = first_some xs"
| "first_some (Some x # xs) = Some x"

section \<open>Filter extractor (logic/filters.py)\<close>

definition barrios_disponibles :: "pystr list" where
  "barrios_disponibles = map py_lower BARRIOS"

definition tipos_disponibles :: "pystr list" where
  "tipos_disponibles = map py_lower TIPOS"

definition operaciones_disponibles :: "pystr list" where
  "operaciones_disponibles = map py_lower OPERACIONES"

text \<open>One turn of the loop over \<open>barrio_patterns\<close>: the pattern must match and the
  captured text, stripped and lower-cased, must be a gazetteer entry.\<close>

definition try_barrio_pattern :: "(pystr \<Rightarrow> pystr option) \<Rightarrow> pystr \<Rightarrow> pystr option" where
  "try_barrio_pattern m text_lower =
     (case re_search m text_lower of None \<Rightarrow> None
      | Some g \<Rightarrow>
          (let potential_barrio = py_lower (py_strip g)
           in if potential_barrio \<in> set barrios_disponibles then Some potential_barrio
              else None))"

definition barrio_patterns :: "(pystr \<Rightarrow> pystr option) list" where
  "barrio_patterns =
     [m_prep (lit ''en ''), m_prep (lit ''barrio ''), m_prep (lit ''zona ''),
      m_prep_end (lit ''de '')]"

text \<open>\<open>barrio_detectado\<close> after both detection stages. \<open>not barrio_detectado\<close> holds
  for \<open>None\<close> and for the empty string.\<close>

definition detect_barrio :: "pystr \<Rightarrow> pystr option" where
  "detect_barrio text_lower =
     (case List.find (\<lambda>barrio. sublist barrio text_lower) barrios_disponibles of
        Some b \<Rightarrow> if b \<noteq> [] then Some b
                  else first_some (map (\<lambda>m. try_barrio_pattern m text_lower) barrio_patterns)
      | None \<Rightarrow> first_some (map (\<lambda>m. try_barrio_pattern m text_lower) barrio_patterns))"

definition precio_patterns :: "(pystr \<Rightarrow> pystr option) list" where
  "precio_patterns =
     [m_amount (lit ''hasta ''), m_amount ([109, 225] @ lit ''ximo ''), m_precio,
      m_amount (lit ''menos de ''), m_currency]"

text \<open>One turn of the loop over \<open>precio_patterns\<close>: a match whose digits do not
  parse (only dots were captured) continues with the next pattern.\<close>

definition try_precio_pattern :: "(pystr \<Rightarrow> pystr option) \<Rightarrow> pystr \<Rightarrow> int option" where
  "try_precio_pattern m text_lower =
     (case re_search m text_lower of None \<Rightarrow> None
      | Some g \<Rightarrow> py_int (filter (\<lambda>c. c \<noteq> 46) g))"

definition detect_max_price :: "pystr \<Rightarrow> int option" where
  "detect_max_price text_lower =
     first_some (map (\<lambda>m. try_precio_pattern m text_lower) precio_patterns)"

definition detect_min_price :: "pystr \<Rightarrow> int option" where
  "detect_min_price text_lower = try_precio_pattern (m_amount (lit ''desde '')) text_lower"

definition rooms_match :: "pystr \<Rightarrow> pystr option" where
  "rooms_match text_lower =
     first_some [re_search (m_count (lit ''amb'')) text_lower,
                 re_search (m_count (lit ''ambiente'')) text_lower]"

definition sqm_match :: "pystr \<Rightarrow> pystr option" where
  "sqm_match text_lower =
     first_some [re_search (m_count (lit ''m2'')) text_lower,
                 re_search (m_count (lit ''metros'')) text_lower]"

text \<open>Storing a detected value under a key, or leaving the dictionary as it is.\<close>

definition put :: "pystr \<Rightarrow> pyval option \<Rightarrow> pydict \<Rightarrow> pydict" where
  "put k v d = (case v of None \<Rightarrow> d | Some x \<Rightarrow> setitem d k x)"

text \<open>
  \<open>int(match.group(1))\<close> for rooms and square metres is outside any \<open>try\<close>; the
  group is a non-empty run of decimal digits, on which \<open>py_int\<close> is defined.
\<close>

definition detect_filters :: "pystr \<Rightarrow> pydict" where
  "detect_filters text_lower =
     (put (lit ''min_sqm'') (map_option PInt (Option.bind (sqm_match text_lower) py_int))
     (put (lit ''min_rooms'') (map_option PInt (Option.bind (rooms_match text_lower) py_int))
     (put (lit ''min_price'') (map_option PInt (detect_min_price text_lower))
     (put (lit ''max_price'') (map_option PInt (detect_max_price text_lower))
     (put (lit ''operacion'')
        (map_option PStr (List.find (\<lambda>operacion. sublist operacion text_lower)
           operaciones_disponibles))
     (put (lit ''tipo'')
        (map_option PStr (List.find (\<lambda>tipo. sublist tipo text_lower) tipos_disponibles))
     (put (lit ''neighborhood'') (map_option PStr (detect_barrio text_lower)) [])))))))"

section \<open>LLM gateway (logic/gemini\_client.py)\<close>

text \<open>
  What one \<open>generate_content\<close> call with one key does: it raises, or it returns a
  response with some number of content parts whose \<open>.text\<close> is either readable or
  raises when read.
\<close>

datatype outcome = Raises | Response nat "pystr option"

definition get_fallback_response :: pystr where
  "get_fallback_response =
     [129302] @ lit '' **Dante Propiedades**'' @ [10, 10, 161] @
     lit ''Hola! La aplicaci'' @ [243] @ lit ''n est'' @ [225] @
     lit '' funcionando pero hay un problema temporal con el servicio de IA.'' @ [10, 10] @
     lit ''**Sistema disponible:**'' @ [10, 9989] @ lit '' B'' @ [250] @
     lit ''squeda de propiedades'' @ [10, 9989] @
     lit '' Filtros por barrio, precio, tipo'' @ [10, 9989] @
     lit '' Base de datos cargada'' @ [10, 10, 9888, 65039] @
     lit '' **El modo conversacional IA est'' @ [225] @
     lit '' temporalmente desactivado.**'' @ [10, 10] @
     lit ''**C'' @ [243] @ lit ''mo usar:**'' @ [10] @
     lit ''1. Escrib'' @ [237] @ lit '' tu b'' @ [250] @
     lit ''squeda (ej: '' @ [34] @ lit ''departamento en palermo'' @ [34, 41, 10] @
     lit ''2. La app encontrar'' @ [225] @ lit '' propiedades relevantes'' @ [10] @
     lit ''3. Us'' @ [225] @ lit '' los filtros para refinar resultados'' @ [10, 10, 127968] @
     lit '' **'' @ [161] @ lit ''La b'' @ [250] @
     lit ''squeda de propiedades funciona perfectamente!**''"

text \<open>
  The \<open>for i, key in enumerate(API_KEYS)\<close> loop. The second component of the result
  is the list of keys with which a completion was attempted, in the order of the
  attempts. Everything inside the loop body is under \<open>try\<close>, and the handler only
  prints and continues, so a raising call, a response without parts and a response whose
  text cannot be read all move on to the next key.
\<close>

fun rotation :: "(pystr \<Rightarrow> pystr \<Rightarrow> outcome) \<Rightarrow> pystr \<Rightarrow> pystr list \<Rightarrow> pystr list
    \<Rightarrow> pystr \<times> pystr list" where
  "rotation gen prompt [] tried = (get_fallback_response, tried)"
| "rotation gen prompt (key # keys) tried =
     (case gen key prompt of
        Raises \<Rightarrow> rotation gen prompt keys (tried @ [key])
      | Response parts txt \<Rightarrow>
          if parts = 0 then rotation gen prompt keys (tried @ [key])
          else (case txt of
                  None \<Rightarrow> rotation gen prompt keys (tried @ [key])
                | Some t \<Rightarrow> (py_strip t, tried @ [key])))"

definition call_gemini_with_rotation ::
    "(pystr \<Rightarrow> pystr \<Rightarrow> outcome) \<Rightarrow> pystr list \<Rightarrow> pystr \<Rightarrow> pystr \<times> pystr list" where
  "call_gemini_with_rotation gen API_KEYS prompt =
     (if API_KEYS = [] then (get_fallback_response, [])
      else rotation gen prompt API_KEYS [])"

text \<open>A credential fails: the call raises (the call itself or reading the text), or
  the response has zero content parts.\<close>

fun fails :: "outcome \<Rightarrow> bool" where
  "fails Raises = True"
| "fails (Response parts txt) = (parts = 0 \<or> txt = None)"

section \<open>Response shaper (the cleaning block of chat in backend/main-ai.py)\<close>

text \<open>\<open>s.split(sep)\<close> for a one-character separator, and \<open>sep.join(lines)\<close>.\<close>

fun py_split :: "nat \<Rightarrow> pystr \<Rightarrow> pystr list" where
  "py_split sep [] = [[]]"
| "py_split sep (c # cs) =
     (if c = sep then [] # py_split sep cs
      else (case py_split sep cs of [] \<Rightarrow> [[c]] | l # ls \<Rightarrow> (c # l) # ls))"

fun py_join :: "pystr \<Rightarrow> pystr list \<Rightarrow> pystr" where
  "py_join sep [] = []"
| "py_join sep [l] = l"
| "py_join sep (l # ls) = l @ sep @ py_join sep ls"

text \<open>
  \<open>str.isdigit()\<close> on one character: the decimal digits and the other characters
  with a digit value (superscripts, circled digits and so on), as inclusive ranges of
  code points above ASCII (Unicode 14.0, the tables of CPython 3.11).
\<close>

definition isdigit_ranges :: "(nat \<times> nat) list" where
  "isdigit_ranges =
    [(178, 179), (185, 185), (1632, 1641), (1776, 1785), (1984, 1993), (2406, 2415),
      (2534, 2543), (2662, 2671), (2790, 2799), (2918, 2927), (3046, 3055), (3174, 3183),
      (3302, 3311), (3430, 3439), (3558, 3567), (3664, 3673), (3792, 3801), (3872, 3881),
      (4160, 4169), (4240, 4249), (4969, 4977), (6112, 6121), (6160, 6169), (6470, 6479),
      (6608, 6618), (6784, 6793), (6800, 6809), (6992, 7001), (7088, 7097), (7232, 7241),
      (7248, 7257), (8304, 8304), (8308, 8313), (8320, 8329), (9312, 9320), (9332, 9340),
      (9352, 9360), (9450, 9450), (9461, 9469), (9471, 9471), (10102, 10110),
      (10112, 10120), (10122, 10130), (42528, 42537), (43216, 43225), (43264, 43273),
      (43472, 43481), (43504, 43513), (43600, 43609), (44016, 44025), (65296, 65305),
      (66720, 66729), (68160, 68163), (68912, 68921), (69216, 69224), (69714, 69722),
      (69734, 69743), (69872, 69881), (69942, 69951), (70096, 70105), (70384, 70393),
      (70736, 70745), (70864, 70873), (71248, 71257), (71360, 71369), (71472, 71481),
      (71904, 71913), (72016, 72025), (72784, 72793), (73040, 73049), (73120, 73129),
      (92768, 92777), (92864, 92873), (93008, 93017), (120782, 120831), (123200, 123209),
      (123632, 123641), (125264, 125273), (127232, 127242), (130032, 130041)]"

definition py_isdigit :: "nat \<Rightarrow> bool" where
  "py_isdigit c =
     (if c < 178 then 48 \<le> c \<and> c \<le> 57
      else list_ex (\<lambda>(lo, hi). lo \<le> c \<and> c \<le> hi) isdigit_ranges)"

text \<open>\<open>str(n)\<close> for an integer, as an f-string renders it.\<close>

fun str_nat :: "nat \<Rightarrow> pystr" where
  "str_nat n = (if n < 10 then [48 + n] else str_nat (n div 10) @ [48 + n mod 10])"

declare str_nat.simps [simp del]

definition str_int :: "int \<Rightarrow> pystr" where
  "str_int i = (if i < 0 then 45 # str_nat (nat (- i)) else str_nat (nat i))"

text \<open>
  The emoji tested by the shaper, each a single code point: house U+1F3E0, pin U+1F4CD,
  money bag U+1F4B0, clipboard U+1F4CB, speech balloon U+1F4AC. For a one-character
  needle, \<open>needle in line\<close> is membership.
\<close>

definition listing_start :: "pystr \<Rightarrow> bool" where
  "listing_start line_stripped =
     (case line_stripped of [] \<Rightarrow> False
      | c # _ \<Rightarrow> py_isdigit c \<and>
          (46 \<in> set line_stripped \<or> 41 \<in> set line_stripped
           \<or> 127968 \<in> set line_stripped \<or> 128205 \<in> set line_stripped))"

definition has_property_emoji :: "pystr \<Rightarrow> bool" where
  "has_property_emoji line =
     list_ex (\<lambda>emoji. emoji \<in> set line) [127968, 128205, 128176, 128203, 128172]"

text \<open>
  The \<open>for i, line in enumerate(lines)\<close> loop with its flag \<open>skip_next_lines\<close>;
  \<open>i == len(lines) - 1\<close> holds exactly when no line remains after the current one.
\<close>

fun clean_lines :: "bool \<Rightarrow> pystr list \<Rightarrow> pystr list" where
  "clean_lines skip_next_lines [] = []"
| "clean_lines skip_next_lines (line # rest) =
     (if listing_start (py_strip line) then clean_lines True rest
      else if has_property_emoji line then clean_lines skip_next_lines rest
      else if skip_next_lines then
        (if py_strip line = [] \<or> rest = [] then clean_lines False rest
         else clean_lines True rest)
      else line # clean_lines False rest)"

definition generic_message :: "nat \<Rightarrow> pystr" where
  "generic_message n =
     [9989] @ lit '' Encontr'' @ [233] @ lit '' '' @ str_nat n @
     lit '' propiedades que coinciden con tu b'' @ [250] @
     lit ''squeda. Te las muestro abajo:''"

definition cards_suffix :: "nat \<Rightarrow> pystr" where
  "cards_suffix n =
     [10, 10, 128202] @ lit '' **Encontr'' @ [233] @ lit '' '' @ str_nat n @
     lit '' propiedades** - Te las muestro en detalle abajo '' @ [128071]"

text \<open>The whole block, applied to the gateway's answer when \<open>n = len(results) > 0\<close>.\<close>

definition shape_response :: "pystr \<Rightarrow> nat \<Rightarrow> pystr" where
  "shape_response answer n =
     (let cleaned = py_strip (py_join [10] (clean_lines False (py_split 10 answer)))
      in if cleaned = [] \<or> length cleaned < 20 then generic_message n
         else if \<not> sublist (lit ''propiedad'') (py_lower cleaned)
                 \<and> \<not> sublist (lit ''encontr'' @ [233]) (py_lower cleaned)
              then cleaned @ cards_suffix n
              else cleaned)"

section \<open>Catalog query (backend/logic/database.py)\<close>

text \<open>
  A row of the table \<open>properties\<close> as \<open>dict(row)\<close> returns it. The columns the
  query reads and the ones the response model requires are fields: those declared
  \<open>NOT NULL\<close> always hold a value, while \<open>id_temporal\<close> (a text primary key, which
  the engine lets be NULL) and \<open>descripcion\<close> may be NULL. The remaining nullable
  columns (address, age, amenities, media lists and so on) are carried in \<open>otros\<close>,
  the media lists in the parsed form in which the function returns them.
  \<open>REAL\<close> columns hold finite numbers, compared exactly. Rows are taken to satisfy the
  declared column types.
\<close>

record property =
  id_temporal :: "pystr option"
  titulo :: pystr
  barrio :: pystr
  precio :: real
  ambientes :: int
  metros_cuadrados :: real
  descripcion :: "pystr option"
  operacion :: pystr
  tipo :: pystr
  otros :: pydict

text \<open>The database file: unreachable (every statement raises), or holding rows.\<close>

datatype catalog = Unavailable | Rows "property list"

text \<open>Python truthiness of a value; not-a-number and the infinities are truthy, and a
  list or dictionary is truthy when it is not empty.\<close>

fun truthy :: "pyval \<Rightarrow> bool" where
  "truthy PNone = False"
| "truthy (PBool b) = b"
| "truthy (PInt i) = (i \<noteq> 0)"
| "truthy (PFloat f) = (f \<noteq> Finite 0)"
| "truthy (PStr s) = (s \<noteq> [])"
| "truthy (PList xs) = (xs \<noteq> [])"
| "truthy (PDict d) = (d \<noteq> [])"

text \<open>
  The conversions between numbers and text that the interpreter and the database
  engine perform with floating-point formatting and rounding. They are parameters of
  the model:
  \<^item> \<open>numeric_text\<close>: the engine's NUMERIC affinity on a text, the number into
    which it converts a well-formed numeric literal (an infinity when the literal
    overflows), or nothing when the text is no such literal;
  \<^item> \<open>float_repr\<close>: the text of a Python float inside an f-string;
  \<^item> \<open>real_text\<close>: the engine's text of a REAL value under TEXT affinity.

  The text of a list or dictionary inside an f-string (\<open>container_repr\<close>) is a
  parameter as well: it is pure formatting of nested values.
\<close>

record conversions =
  numeric_text :: "pystr \<Rightarrow> pyfloat option"
  float_repr :: "pyfloat \<Rightarrow> pystr"
  real_text :: "pyfloat \<Rightarrow> pystr"
  container_repr :: "pyval \<Rightarrow> pystr"

text \<open>\<open>f"{v}"\<close>: the text of a value inside an f-string.\<close>

fun py_str :: "conversions \<Rightarrow> pyval \<Rightarrow> pystr" where
  "py_str cv PNone = lit ''None''"
| "py_str cv (PBool b) = (if b then lit ''True'' else lit ''False'')"
| "py_str cv (PInt i) = str_int i"
| "py_str cv (PFloat f) = float_repr cv f"
| "py_str cv (PStr s) = s"
| "py_str cv (PList xs) = container_repr cv (PList xs)"
| "py_str cv (PDict d) = container_repr cv (PDict d)"

text \<open>\<open>'k' in filters and filters['k']\<close>: the value when the key is present and truthy.\<close>

definition active :: "pydict \<Rightarrow> pystr \<Rightarrow> pyval option" where
  "active filters k =
     (case getitem filters k of None \<Rightarrow> None
      | Some v \<Rightarrow> if truthy v then Some v else None)"

text \<open>The conditions the function appends to \<open>WHERE 1=1\<close>, each with its parameter.\<close>

datatype column_op =
  BarrioLike | PrecioGe | PrecioLe | AmbientesGe | OperacionEq | TipoEq | MetrosGe | MetrosLe

fun opt_list :: "'a option \<Rightarrow> 'a list" where
  "opt_list None = []"
| "opt_list (Some x) = [x]"

definition like_param :: "conversions \<Rightarrow> pyval \<Rightarrow> pyval" where
  "like_param cv v = PStr ([37] @ py_str cv v @ [37])"

definition where_clauses :: "conversions \<Rightarrow> pydict \<Rightarrow> (column_op \<times> pyval) list" where
  "where_clauses cv filters =
     opt_list (map_option (\<lambda>v. (BarrioLike, like_param cv v)) (active filters (lit ''neighborhood'')))
     @ opt_list (map_option (\<lambda>v. (BarrioLike, like_param cv v)) (active filters (lit ''barrio'')))
     @ opt_list (map_option (Pair PrecioGe) (active filters (lit ''min_price'')))
     @ opt_list (map_option (Pair PrecioLe) (active filters (lit ''max_price'')))
     @ opt_list (map_option (Pair AmbientesGe) (active filters (lit ''min_rooms'')))
     @ opt_list (map_option (Pair OperacionEq) (active filters (lit ''operacion'')))
     @ opt_list (map_option (Pair TipoEq) (active filters (lit ''tipo'')))
     @ opt_list (map_option (Pair MetrosGe) (active filters (lit ''min_sqm'')))
     @ opt_list (map_option (Pair MetrosLe) (active filters (lit ''max_sqm'')))"

text \<open>
  Binding a Python value as an SQL parameter (module \<open>sqlite3\<close>): \<open>None\<close> is NULL,
  a boolean is the integer 0 or 1, and an integer is INTEGER when it fits in 64 signed
  bits; a larger one raises \<open>OverflowError\<close>. A float is REAL, except not-a-number,
  which the engine stores as NULL. A string is TEXT when it can be encoded
  as UTF-8, that is when it holds no surrogate code point (U+D800 to U+DFFF), and when
  its encoding is within the engine's length limit of 1000000000 bytes; otherwise
  binding raises. A list or a dictionary is of no supported type and raises.
  A raise is \<open>None\<close> here.
\<close>

datatype sqlval = SNull | SInt int | SReal pyfloat | SText pystr

definition encodable :: "nat \<Rightarrow> bool" where
  "encodable c = (c < 55296 \<or> (57343 < c \<and> c \<le> 1114111))"

definition utf8_len :: "pystr \<Rightarrow> nat" where
  "utf8_len s =
     sum_list (map (\<lambda>c. if c < 128 then 1 else if c < 2048 then 2
                            else if c < 65536 then 3 else 4) s)"

fun bind_param :: "pyval \<Rightarrow> sqlval option" where
  "bind_param PNone = Some SNull"
| "bind_param (PBool b) = Some (SInt (if b then 1 else 0))"
| "bind_param (PInt i) =
     (if - 9223372036854775808 \<le> i \<and> i \<le> 9223372036854775807 then Some (SInt i) else None)"
| "bind_param (PFloat f) = (if f = NaN then Some SNull else Some (SReal f))"
| "bind_param (PStr s) =
     (if list_all encodable s \<and> utf8_len s \<le> 1000000000 then Some (SText s) else None)"
| "bind_param (PList xs) = None"
| "bind_param (PDict d) = None"

text \<open>
  \<open>LIKE\<close> of SQLite: \<open>%\<close> matches any sequence of characters, \<open>_\<close> any one
  character, and letters compare without case for \<open>A-Z\<close> only. Pattern and text are
  read up to their first NUL character. A pattern of more than 50000 bytes makes the
  statement fail as soon as the pattern is evaluated on a row.
\<close>

definition c_string :: "pystr \<Rightarrow> pystr" where
  "c_string s = takeWhile (\<lambda>c. c \<noteq> 0) s"

definition ascii_lower :: "nat \<Rightarrow> nat" where
  "ascii_lower c = (if 65 \<le> c \<and> c \<le> 90 then c + 32 else c)"

fun like_match :: "pystr \<Rightarrow> pystr \<Rightarrow> bool" where
  "like_match [] t = (t = [])"
| "like_match (p # ps) t =
     (if p = 37 then
        (like_match ps t \<or> (case t of [] \<Rightarrow> False | _ # ts \<Rightarrow> like_match (p # ps) ts))
      else (case t of [] \<Rightarrow> False
            | c # ts \<Rightarrow> (p = 95 \<or> ascii_lower p = ascii_lower c) \<and> like_match ps ts))"

text \<open>A float parameter below or at, and at or above, a stored number.\<close>

fun float_le :: "pyfloat \<Rightarrow> real \<Rightarrow> bool" where
  "float_le (Finite r) x = (r \<le> x)"
| "float_le NegInf x = True"
| "float_le PosInf x = False"
| "float_le NaN x = False"

fun float_ge :: "pyfloat \<Rightarrow> real \<Rightarrow> bool" where
  "float_ge (Finite r) x = (x \<le> r)"
| "float_ge PosInf x = True"
| "float_ge NegInf x = False"
| "float_ge NaN x = False"

text \<open>
  Comparison of a numeric column with a parameter. A comparison with NULL is not true.
  NUMERIC affinity is applied to a TEXT parameter: a well-formed numeric literal is
  compared as the number it denotes; a text that is not one stays TEXT, and every
  number is smaller than every text.
\<close>

fun num_ge :: "conversions \<Rightarrow> real \<Rightarrow> sqlval \<Rightarrow> bool" where
  "num_ge cv x SNull = False"
| "num_ge cv x (SInt i) = (real_of_int i \<le> x)"
| "num_ge cv x (SReal f) = float_le f x"
| "num_ge cv x (SText s) = (case numeric_text cv s of Some f \<Rightarrow> float_le f x | None \<Rightarrow> False)"

fun num_le :: "conversions \<Rightarrow> real \<Rightarrow> sqlval \<Rightarrow> bool" where
  "num_le cv x SNull = False"
| "num_le cv x (SInt i) = (x \<le> real_of_int i)"
| "num_le cv x (SReal f) = float_ge f x"
| "num_le cv x (SText s) = (case numeric_text cv s of Some f \<Rightarrow> float_ge f x | None \<Rightarrow> True)"

text \<open>Equality of a TEXT column with a parameter: TEXT affinity turns a numeric
  parameter into its text.\<close>

fun text_eq :: "conversions \<Rightarrow> pystr \<Rightarrow> sqlval \<Rightarrow> bool" where
  "text_eq cv x SNull = False"
| "text_eq cv x (SInt i) = (x = str_int i)"
| "text_eq cv x (SReal f) = (x = real_text cv f)"
| "text_eq cv x (SText s) = (x = s)"

fun text_like :: "conversions \<Rightarrow> pystr \<Rightarrow> sqlval \<Rightarrow> bool" where
  "text_like cv x SNull = False"
| "text_like cv x (SInt i) = like_match (str_int i) (c_string x)"
| "text_like cv x (SReal f) = like_match (c_string (real_text cv f)) (c_string x)"
| "text_like cv x (SText s) = like_match (c_string s) (c_string x)"

fun holds :: "conversions \<Rightarrow> property \<Rightarrow> column_op \<Rightarrow> sqlval \<Rightarrow> bool" where
  "holds cv r BarrioLike p = text_like cv (barrio r) p"
| "holds cv r PrecioGe p = num_ge cv (precio r) p"
| "holds cv r PrecioLe p = num_le cv (precio r) p"
| "holds cv r AmbientesGe p = num_ge cv (real_of_int (ambientes r)) p"
| "holds cv r OperacionEq p = text_eq cv (operacion r) p"
| "holds cv r TipoEq p = text_eq cv (tipo r) p"
| "holds cv r MetrosGe p = num_ge cv (metros_cuadrados r) p"
| "holds cv r MetrosLe p = num_le cv (metros_cuadrados r) p"

text \<open>A row satisfies a condition with its parameter bound.\<close>

definition satisfies :: "conversions \<Rightarrow> property \<Rightarrow> column_op \<times> pyval \<Rightarrow> bool" where
  "satisfies cv r c =
     (case bind_param (snd c) of None \<Rightarrow> False | Some p \<Rightarrow> holds cv r (fst c) p)"

text \<open>A condition makes the statement raise: its parameter cannot be bound, or it is
  a \<open>LIKE\<close> whose pattern is too long.\<close>

definition pattern_too_long :: "pyval \<Rightarrow> bool" where
  "pattern_too_long v = (case v of PStr s \<Rightarrow> 50000 < utf8_len s | _ \<Rightarrow> False)"

definition clause_raises :: "column_op \<times> pyval \<Rightarrow> bool" where
  "clause_raises c =
     (bind_param (snd c) = None \<or> (fst c = BarrioLike \<and> pattern_too_long (snd c)))"

text \<open>
  \<open>cursor.execute(query, params)\<close> and \<open>fetchall\<close>: the statement fails as a whole
  when one condition raises; otherwise the result is the rows that satisfy every
  condition, \<open>ORDER BY precio ASC\<close>. SQL leaves the order of rows of equal price open;
  the model keeps their stored order. (With a pattern that is too long the engine
  raises only once it evaluates the pattern on a row; when it never does, no row
  passes the other conditions, and the caller gets the empty list either way.)
\<close>

definition execute_select ::
    "conversions \<Rightarrow> property list \<Rightarrow> (column_op \<times> pyval) list \<Rightarrow> property list option" where
  "execute_select cv rows clauses =
     (if list_ex clause_raises clauses then None
      else Some (sort_key precio (filter (\<lambda>r. list_all (satisfies cv r) clauses) rows)))"

text \<open>
  \<open>query_properties\<close>: any exception inside is caught and gives the empty list. The
  check at the start of the function recreates a table that is missing; the model
  starts from a table that exists. Diagnostic printing is left out: the console is
  taken to accept every text.
\<close>

definition query_properties :: "conversions \<Rightarrow> catalog \<Rightarrow> pydict \<Rightarrow> property list" where
  "query_properties cv db filters =
     (case db of
        Unavailable \<Rightarrow> []
      | Rows rows \<Rightarrow>
          (case execute_select cv rows (where_clauses cv filters) of
             None \<Rightarrow> []
           | Some results \<Rightarrow> results))"

section \<open>Conversation log (backend/logic/database.py)\<close>

text \<open>
  A row of the table \<open>logs\<close>, in insertion order. The time stamp and the measured
  response time are wall-clock values and are left out.
\<close>

record turn =
  log_channel :: pystr
  user_message :: pystr
  bot_response :: pystr
  log_search_performed :: bool
  log_results_count :: nat

datatype logdb = LogUnavailable | Logs "turn list"

text \<open>The last five turns of a channel, most recent first, two lines each; the empty
  list when the log cannot be read.\<close>

definition get_historial_canal :: "logdb \<Rightarrow> pystr \<Rightarrow> pystr list" where
  "get_historial_canal db canal =
     (case db of
        LogUnavailable \<Rightarrow> []
      | Logs ts \<Rightarrow>
          concat (map (\<lambda>t. [lit ''Usuario: '' @ user_message t, lit ''Bot: '' @ bot_response t])
                      (take 5 (rev (filter (\<lambda>t. log_channel t = canal) ts)))))"

text \<open>Appending a turn; a failure of the log is swallowed and leaves it as it was.\<close>

definition log_conversation :: "logdb \<Rightarrow> pystr \<Rightarrow> pystr \<Rightarrow> pystr \<Rightarrow> bool \<Rightarrow> nat \<Rightarrow> logdb" where
  "log_conversation db user_msg bot_resp chan searched n =
     (case db of
        LogUnavailable \<Rightarrow> LogUnavailable
      | Logs ts \<Rightarrow>
          Logs (ts @ [\<lparr>log_channel = chan, user_message = user_msg, bot_response = bot_resp,
                       log_search_performed = searched, log_results_count = n\<rparr>]))"

section \<open>Chat orchestrator (chat in backend/main-ai.py)\<close>

record chat_request =
  req_message :: pystr
  req_channel :: pystr
  req_filters :: "pydict option"
  req_contexto_anterior :: "pydict option"
  req_es_seguimiento :: "bool option"

record chat_response =
  response :: pystr
  results_count :: "nat option"
  search_performed :: bool
  propiedades :: "property list option"

record counters =
  requests_count :: nat
  successful_requests :: nat
  failed_requests :: nat
  gemini_calls :: nat
  search_queries :: nat

text \<open>The state of the server: the two databases and the global \<open>metrics\<close> object.\<close>

record server =
  catalog_db :: catalog
  log_db :: logdb
  metrics :: counters

text \<open>
  What the endpoints use from outside: the conversions between numbers and text, the
  configured keys, the completion service, \<open>build_prompt\<close>, and the validation of the
  optional columns of a row by the response model. \<open>build_prompt\<close> is pure text
  formatting whose output is only handed to the completion service (it renders
  dictionaries and sets, whose order the language leaves open); it is a parameter,
  applied to the same arguments as in the source. Its last argument is a text in
  backend/main-ai.py and the list of history lines in main.py.
\<close>

datatype hint = HintText pystr | HintList "pystr list"

record env =
  conv :: conversions
  API_KEYS :: "pystr list"
  generate_content :: "pystr \<Rightarrow> pystr \<Rightarrow> outcome"
  build_prompt :: "pystr \<Rightarrow> property list option \<Rightarrow> pydict \<Rightarrow> pystr \<Rightarrow> hint \<Rightarrow> pystr"
  otros_valid :: "pydict \<Rightarrow> bool"

text \<open>
  \<open>ChatResponse(..., propiedades=results)\<close> validates every row against
  \<open>PropertyResponse\<close>, whose fields \<open>id_temporal\<close> and \<open>descripcion\<close> are required
  strings: a row in which one of them is NULL, or whose optional columns do not
  validate, makes the constructor raise.
\<close>

definition row_valid :: "env \<Rightarrow> property \<Rightarrow> bool" where
  "row_valid e r = (id_temporal r \<noteq> None \<and> descripcion r \<noteq> None \<and> otros_valid e (otros r))"

definition palabras_bienvenida :: "pystr list" where
  "palabras_bienvenida =
     [lit ''hola'', lit ''hi'', lit ''hello'', lit ''buenas'', lit ''empezar'', lit ''inicio'',
      lit ''ayuda'']"

definition welcome_message :: pystr where
  "welcome_message =
     [161] @ lit ''Hola! '' @ [128075] @
     lit '' Soy tu asistente de Dante Propiedades. '' @ [10, 10] @
     lit ''        Te ayudo a encontrar la propiedad ideal. Pod'' @ [233] @
     lit ''s:'' @ [10] @ lit ''        '' @ [8226] @
     lit '' Usar los filtros a la izquierda para b'' @ [250] @ lit ''squedas espec'' @
     [237] @ lit ''ficas'' @ [10] @ lit ''        '' @ [8226] @
     lit '' Contarme directamente qu'' @ [233] @ lit '' est'' @ [225] @
     lit ''s buscando'' @ [10] @ lit ''        '' @ [8226] @
     lit '' Preguntarme sobre propiedades que veas'' @ [10, 10] @ lit ''        '' @
     [191] @ lit ''En qu'' @ [233] @ lit '' tipo de propiedad est'' @ [225] @
     lit ''s interesado hoy?''"

definition style_hint :: "pystr \<Rightarrow> pystr" where
  "style_hint chan =
     (if chan = lit ''whatsapp''
      then lit ''Respond'' @ [233] @ lit '' de forma breve, directa y c'' @ [225] @
           lit ''lida como si fuera un mensaje de WhatsApp.''
      else lit ''Respond'' @ [233] @ lit '' de forma explicativa, profesional y c'' @ [225] @
           lit ''lida como si fuera una consulta web.'')"

definition contexto_dinamico :: pystr where
  "contexto_dinamico =
     lit ''Barrios disponibles: '' @ py_join (lit '', '') BARRIOS @ [46, 10] @
     lit ''Tipos de propiedad: '' @ py_join (lit '', '') TIPOS @ [46, 10] @
     lit ''Operaciones disponibles: '' @ py_join (lit '', '') OPERACIONES @ [46]"

definition contexto_historial :: "pystr list \<Rightarrow> pystr" where
  "contexto_historial historial =
     (if historial = [] then []
      else [10] @ lit ''Historial reciente:'' @ [10] @
           py_join [10] (map (\<lambda>m. lit ''- '' @ m) historial))"

text \<open>\<open>filters = (request.filters or {}).copy(); filters.update(detect_filters(text_lower))\<close>.\<close>

definition combined_filters :: "pydict option \<Rightarrow> pystr \<Rightarrow> pydict" where
  "combined_filters filters_from_frontend text_lower =
     dict_update (case filters_from_frontend of None \<Rightarrow> [] | Some f \<Rightarrow> f)
       (detect_filters text_lower)"

text \<open>\<open>any(palabra in text_lower ...) and not contexto_anterior\<close>: an absent context
  and an empty one are both falsy.\<close>

definition es_saludo_inicial :: "pystr \<Rightarrow> pydict option \<Rightarrow> bool" where
  "es_saludo_inicial text_lower contexto =
     (list_ex (\<lambda>palabra. sublist palabra text_lower) palabras_bienvenida
      \<and> (case contexto of None \<Rightarrow> True | Some d \<Rightarrow> d = []))"

text \<open>
  The \<open>else\<close> branch: prompt, gateway, and the shaper when there are results.
  The second component is the list of keys with which completions were attempted.
\<close>

definition ai_answer ::
    "env \<Rightarrow> pystr \<Rightarrow> property list option \<Rightarrow> pydict \<Rightarrow> pystr \<Rightarrow> pystr list \<Rightarrow> pystr \<times> pystr list" where
  "ai_answer e user_text results fs chan historial =
     (let prompt = build_prompt e user_text results fs chan
                     (HintText (style_hint chan @ [10] @ contexto_dinamico @ [10]
                                @ contexto_historial historial));
          r = call_gemini_with_rotation (generate_content e) (API_KEYS e) prompt
      in (case results of
            None \<Rightarrow> r
          | Some rs \<Rightarrow> if rs \<noteq> [] then (shape_response (fst r) (length rs), snd r) else r))"

definition bump_requests :: "counters \<Rightarrow> counters" where
  "bump_requests m = m\<lparr>requests_count := requests_count m + 1\<rparr>"

definition bump_failures :: "counters \<Rightarrow> counters" where
  "bump_failures m = m\<lparr>failed_requests := failed_requests m + 1\<rparr>"

definition bump_success :: "counters \<Rightarrow> counters" where
  "bump_success m = m\<lparr>successful_requests := successful_requests m + 1\<rparr>"

definition bump_gemini :: "counters \<Rightarrow> counters" where
  "bump_gemini m = m\<lparr>gemini_calls := gemini_calls m + 1\<rparr>"

definition bump_searches :: "counters \<Rightarrow> counters" where
  "bump_searches m = m\<lparr>search_queries := search_queries m + 1\<rparr>"

text \<open>
  The endpoint. The result is an HTTP error status or the response body, the new state
  of the server, and the keys with which completions were attempted for this request.

  \<^item> The request model declares \<open>message\<close> with \<open>min_length=1, max_length=1000\<close>:
    a body that violates it is answered 422 by the framework and the handler does
    not run.
  \<^item> \<open>raise HTTPException(status_code=400)\<close> for a message that is empty after
    \<open>strip()\<close> stands inside the \<open>try\<close> whose handler catches \<open>Exception\<close>,
    counts a failure and raises the 500 error.
  \<^item> The response object is built after the turn is logged and the success is
    counted; when a row does not validate, the same handler counts a failure and
    raises the 500 error.
\<close>

definition chat :: "env \<Rightarrow> server \<Rightarrow> chat_request \<Rightarrow> (nat + chat_response) \<times> server \<times> pystr list" where
  "chat e srv request =
     (if length (req_message request) < 1 \<or> 1000 < length (req_message request)
      then (Inl 422, srv, [])
      else
        (let m1 = bump_requests (metrics srv);
             user_text = py_strip (req_message request)
         in if user_text = []
            then (Inl 500, srv\<lparr>metrics := bump_failures m1\<rparr>, [])
            else
              (let chan = py_strip (req_channel request);
                   text_lower = py_lower user_text;
                   fs = combined_filters (req_filters request) text_lower;
                   searched = (fs \<noteq> []);
                   m2 = (if searched then bump_searches m1 else m1);
                   results = (if searched
                              then Some (query_properties (conv e) (catalog_db srv) fs)
                              else None);
                   historial = get_historial_canal (log_db srv) chan;
                   saludo = es_saludo_inicial text_lower (req_contexto_anterior request);
                   a = (if saludo then (welcome_message, [])
                        else ai_answer e user_text results fs chan historial);
                   m3 = (if saludo then m2 else bump_gemini m2);
                   n = (case results of None \<Rightarrow> 0 | Some rs \<Rightarrow> length rs);
                   logs' = log_conversation (log_db srv) user_text (fst a) chan searched n;
                   valid = (case results of None \<Rightarrow> True | Some rs \<Rightarrow> list_all (row_valid e) rs)
               in if valid
                  then (Inr \<lparr>response = fst a,
                             results_count = map_option length results,
                             search_performed = searched,
                             propiedades = results\<rparr>,
                        srv\<lparr>log_db := logs', metrics := bump_success m3\<rparr>,
                        snd a)
                  else (Inl 500,
                        srv\<lparr>log_db := logs', metrics := bump_failures (bump_success m3)\<rparr>,
                        snd a))))"

section \<open>Chat endpoint of the Flask server (chat in main.py)\<close>

text \<open>
  What \<open>request.get_json()\<close> gives the handler: it raises or returns a truthy value
  that is no object, on which \<open>.get\<close> raises (\<open>Unusable\<close>); it returns \<open>None\<close> or
  another falsy value that is no object (\<open>Falsy\<close>); or it returns an object.
\<close>

datatype flask_data = Unusable | Falsy | Object pydict

text \<open>\<open>data.get('channel', 'web').strip()\<close>: only a string can be stripped.\<close>

definition flask_channel :: "pydict \<Rightarrow> pystr option" where
  "flask_channel obj =
     (case map_of obj (lit ''channel'') of
        None \<Rightarrow> Some (py_strip (lit ''web''))
      | Some (PStr c) \<Rightarrow> Some (py_strip c)
      | Some _ \<Rightarrow> None)"

text \<open>\<open>data.get('filters', {}).copy()\<close> and \<open>filters.update(...)\<close>: only an object can be
  copied and updated (an array can be copied, but has no \<open>update\<close>).\<close>

definition flask_filters :: "pydict \<Rightarrow> pydict option" where
  "flask_filters obj =
     (case map_of obj (lit ''filters'') of
        None \<Rightarrow> Some []
      | Some (PDict d) \<Rightarrow> Some d
      | Some _ \<Rightarrow> None)"

text \<open>
  The handler after the message has been found truthy. Every exception is caught by
  the handler's \<open>except Exception\<close> and answered 500. There is no greeting branch, no
  shaping of the answer and no response model: the gateway is called for every message.
  The handler takes \<open>query_properties\<close>, \<open>get_historial_canal\<close> and
  \<open>log_conversation\<close> from the module \<open>logic.database\<close>; the module of that name
  in the repository is backend/logic/database.py, modelled above.
\<close>

definition flask_answer ::
    "env \<Rightarrow> server \<Rightarrow> pydict \<Rightarrow> pystr \<Rightarrow> (nat + chat_response) \<times> server \<times> pystr list" where
  "flask_answer e srv obj msg =
     (case flask_channel obj of
        None \<Rightarrow> (Inl 500, srv, [])
      | Some chan \<Rightarrow>
          (case flask_filters obj of
             None \<Rightarrow> (Inl 500, srv, [])
           | Some filters_from_frontend \<Rightarrow>
               (let user_text = py_strip msg;
                    text_lower = py_lower user_text;
                    fs = combined_filters (Some filters_from_frontend) text_lower;
                    searched = (fs \<noteq> []);
                    results = (if searched
                               then Some (query_properties (conv e) (catalog_db srv) fs)
                               else None);
                    historial = get_historial_canal (log_db srv) chan;
                    prompt = build_prompt e user_text results fs chan (HintList historial);
                    a = call_gemini_with_rotation (generate_content e) (API_KEYS e) prompt;
                    n = (case results of None \<Rightarrow> 0 | Some rs \<Rightarrow> length rs);
                    logs' = log_conversation (log_db srv) user_text (fst a) chan searched n
                in (Inr \<lparr>response = fst a,
                         results_count = map_option length results,
                         search_performed = searched,
                         propiedades = results\<rparr>,
                    srv\<lparr>log_db := logs'\<rparr>,
                    snd a))))"

text \<open>\<open>if not data or not data.get('message')\<close> answers 400 before anything else; a
  truthy message that is no string has no \<open>strip\<close>.\<close>

definition chat_flask :: "env \<Rightarrow> server \<Rightarrow> flask_data \<Rightarrow> (nat + chat_response) \<times> server \<times> pystr list" where
  "chat_flask e srv data =
     (case data of
        Unusable \<Rightarrow> (Inl 500, srv, [])
      | Falsy \<Rightarrow> (Inl 400, srv, [])
      | Object obj \<Rightarrow>
          (if obj = [] then (Inl 400, srv, [])
           else
             (case map_of obj (lit ''message'') of
                None \<Rightarrow> (Inl 400, srv, [])
              | Some m \<Rightarrow>
                  if \<not> truthy m then (Inl 400, srv, [])
                  else (case m of
                          PStr msg \<Rightarrow> flask_answer e srv obj msg
                        | _ \<Rightarrow> (Inl 500, srv, [])))))"

section \<open>Example data\<close>

text \<open>Concrete inputs on which the properties below are exercised.\<close>

definition example_row :: "pystr \<Rightarrow> real \<Rightarrow> pystr \<Rightarrow> property" where
  "example_row i p t =
     \<lparr>id_temporal = Some i, titulo = lit ''Propiedad'', barrio = lit ''Palermo'', precio = p,
      ambientes = 3, metros_cuadrados = 80, descripcion = Some (lit ''Luminoso''),
      operacion = lit ''venta'', tipo = t, otros = []\<rparr>"

definition example_rows :: "property list" where
  "example_rows = [example_row (lit ''a'') 150 (lit ''casa''), example_row (lit ''b'') 90 (lit ''casa''),
     example_row (lit ''c'') 50 (lit ''ph'')]"

definition example_conv :: conversions where
  "example_conv = \<lparr>numeric_text = (\<lambda>s. None), float_repr = (\<lambda>f. []), real_text = (\<lambda>f. []),
     container_repr = (\<lambda>v. [])\<rparr>"

text \<open>An environment whose only key fails, and one whose key answers.\<close>

definition example_env :: env where
  "example_env = \<lparr>conv = example_conv, API_KEYS = [lit ''k1''],
     generate_content = (\<lambda>k p. Raises), build_prompt = (\<lambda>u r f c h. []),
     otros_valid = (\<lambda>d. True)\<rparr>"

definition example_reply :: pystr where
  "example_reply = lit ''Contame que propiedad buscas y te ayudo.''"

definition example_env_ok :: env where
  "example_env_ok = \<lparr>conv = example_conv, API_KEYS = [lit ''k1''],
     generate_content = (\<lambda>k p. Response 1 (Some example_reply)),
     build_prompt = (\<lambda>u r f c h. []), otros_valid = (\<lambda>d. True)\<rparr>"

definition example_server :: server where
  "example_server = \<lparr>catalog_db = Rows example_rows, log_db = Logs [],
     metrics = \<lparr>requests_count = 0, successful_requests = 0, failed_requests = 0,
                gemini_calls = 0, search_queries = 0\<rparr>\<rparr>"

text \<open>A catalog whose only row has no description.\<close>

definition example_server_null :: server where
  "example_server_null = example_server\<lparr>catalog_db :=
     Rows [(example_row (lit ''d'') 70 (lit ''casa''))\<lparr>descripcion := None\<rparr>]\<rparr>"

text \<open>The example answer of the completion service with a numbered listing, and the
  line of it that survives the cleaning.\<close>

definition llm_example :: pystr where
  "llm_example =
     lit ''1. Casa en Palermo '' @ [127968, 10] @ lit ''2. PH en Boedo '' @
     [127968, 10, 10, 161] @ lit ''Mir'' @ [225] @ lit '' las opciones!''"

definition surviving_line :: pystr where
  "surviving_line = [161] @ lit ''Mir'' @ [225] @ lit '' las opciones!''"

section \<open>Evaluation rules\<close>

text \<open>The defining equations used to evaluate the model on concrete inputs.\<close>

lemmas ev = lit_def isspace_def py_strip_def lower_cp_def lower_seq_def py_lower_def setitem_def
  getitem_def
  digit_value_def
  BARRIOS_def OPERACIONES_def TIPOS_def after_lit_def run1_def barrio_char_def price_char_def
  digit_char_def m_prep_def m_prep_end_def amount_def m_amount_def m_precio_def currency_words_def
  m_currency_def m_count_def py_int_def barrios_disponibles_def tipos_disponibles_def
  operaciones_disponibles_def try_barrio_pattern_def barrio_patterns_def detect_barrio_def
  precio_patterns_def try_precio_pattern_def detect_max_price_def detect_min_price_def
  rooms_match_def sqm_match_def put_def detect_filters_def Let_def sublist_code

lemmas ev_shape = lit_def isspace_def py_strip_def lower_cp_def lower_seq_def py_lower_def
  digit_char_def
  digit_value_def isdigit_ranges_def
  py_isdigit_def listing_start_def has_property_emoji_def generic_message_def cards_suffix_def
  shape_response_def str_nat.simps Let_def sublist_code

lemmas ev_query = getitem_def setitem_def active_def where_clauses_def like_param_def
  query_properties_def execute_select_def satisfies_def example_row_def example_rows_def
  ascii_lower_def str_int_def str_nat.simps clause_raises_def pattern_too_long_def
  encodable_def utf8_len_def c_string_def example_conv_def

section \<open>Properties of the gateway\<close>

lemma rotation_all_fail:
  "list_all (\<lambda>k. fails (gen k prompt)) keys \<Longrightarrow>
   rotation gen prompt keys tried = (get_fallback_response, tried @ keys)"
proof (induction keys arbitrary: tried)
  case Nil
  then show ?case by simp
next
  case (Cons key keys)
  from Cons.prems have f: "fails (gen key prompt)"
    and rest: "list_all (\<lambda>k. fails (gen k prompt)) keys" by simp_all
  have step: "rotation gen prompt (key # keys) tried = rotation gen prompt keys (tried @ [key])"
    using f by (cases "gen key prompt") (auto split: option.splits)
  show ?case using Cons.IH [OF rest, of "tried @ [key]"] step by simp
qed

text \<open>
  Claim C3. When the credential list is empty, or every configured credential fails,
  the gateway returns the fixed fallback text, and the completion attempts are exactly
  the configured keys, one each, in declaration order. The gateway is a total function:
  it has no error result.
\<close>

theorem C3_gateway_fallback:
  assumes "list_all (\<lambda>k. fails (gen k prompt)) keys"
  shows "call_gemini_with_rotation gen keys prompt = (get_fallback_response, keys)
     \<and> length (snd (call_gemini_with_rotation gen keys prompt)) = length keys"
  using assms rotation_all_fail [of gen prompt keys "[]"]
  by (simp add: call_gemini_with_rotation_def)

theorem C3_gateway_fallback_witness:
  "call_gemini_with_rotation
      (\<lambda>k p. if k = lit ''k1'' then Raises
              else if k = lit ''k2'' then Response 0 None else Response 2 None)
      [lit ''k1'', lit ''k2'', lit ''k3''] (lit ''hola'')
    = (get_fallback_response, [lit ''k1'', lit ''k2'', lit ''k3''])
   \<and> length (snd (call_gemini_with_rotation
      (\<lambda>k p. if k = lit ''k1'' then Raises
              else if k = lit ''k2'' then Response 0 None else Response 2 None)
      [lit ''k1'', lit ''k2'', lit ''k3''] (lit ''hola''))) = 3"
  using C3_gateway_fallback [of
      "\<lambda>k p. if k = lit ''k1'' then Raises
              else if k = lit ''k2'' then Response 0 None else Response 2 None"
      "lit ''hola''" "[lit ''k1'', lit ''k2'', lit ''k3'']"]
  by (simp add: lit_def)

section \<open>Properties of the filter extractor\<close>

lemma lower_cp_idem: "lower_cp (lower_cp c) = lower_cp c"
  by (simp add: lower_cp_def)

lemma lower_cp_not_dotted: "c \<noteq> 304 \<Longrightarrow> lower_cp c \<noteq> 304"
  by (auto simp: lower_cp_def)

lemma lower_seq_fixed: "d \<in> set (lower_seq c) \<Longrightarrow> lower_seq d = [d]"
proof (cases "c = 304")
  case True
  assume "d \<in> set (lower_seq c)"
  with True have "d = 105 \<or> d = 775" by (simp add: lower_seq_def)
  then show ?thesis by (auto simp: lower_seq_def lower_cp_def)
next
  case False
  assume "d \<in> set (lower_seq c)"
  with False have d: "d = lower_cp c" by (simp add: lower_seq_def)
  with False have "d \<noteq> 304" by (simp add: lower_cp_not_dotted)
  then show ?thesis by (simp add: lower_seq_def d lower_cp_idem)
qed

lemma py_lower_append: "py_lower (a @ b) = py_lower a @ py_lower b"
  by (simp add: py_lower_def)

lemma py_lower_fixed: "\<forall>d \<in> set x. lower_seq d = [d] \<Longrightarrow> py_lower x = x"
  by (induction x) (simp_all add: py_lower_def)

lemma py_lower_elements: "d \<in> set (py_lower s) \<Longrightarrow> lower_seq d = [d]"
  by (auto simp: py_lower_def dest: lower_seq_fixed)

lemma py_lower_idem: "py_lower (py_lower s) = py_lower s"
  by (rule py_lower_fixed) (simp add: py_lower_elements)

lemma sublist_trans: "sublist xs ys \<Longrightarrow> sublist ys zs \<Longrightarrow> sublist xs zs"
  by (rule sublist_order.order.trans)

lemma sublist_py_lower: "sublist x s \<Longrightarrow> sublist (py_lower x) (py_lower s)"
proof -
  assume "sublist x s"
  then obtain ps ss where "s = ps @ x @ ss" by (auto simp: sublist_def)
  then have "py_lower s = py_lower ps @ py_lower x @ py_lower ss" by (simp add: py_lower_append)
  then show ?thesis by (metis sublist_appendI)
qed

lemma sublist_of_lower_fixed:
  assumes "sublist x (py_lower s)"
  shows "py_lower x = x"
proof -
  from assms obtain ps ss where "py_lower s = ps @ x @ ss" by (auto simp: sublist_def)
  then have "set x \<subseteq> set (py_lower s)" by auto
  then have "\<forall>d \<in> set x. lower_seq d = [d]"
    using py_lower_elements by blast
  then show ?thesis by (rule py_lower_fixed)
qed

lemma py_strip_sublist: "sublist (py_strip g) g"
proof -
  have "suffix (dropWhile isspace g) g" by (rule suffix_dropWhile)
  moreover have "prefix (py_strip g) (dropWhile isspace g)"
  proof -
    have "suffix (dropWhile isspace (rev (dropWhile isspace g))) (rev (dropWhile isspace g))"
      by (rule suffix_dropWhile)
    then show ?thesis unfolding py_strip_def by (simp add: suffix_to_prefix)
  qed
  ultimately show ?thesis
    by (blast intro: sublist_trans prefix_imp_sublist suffix_imp_sublist)
qed

lemma re_search_sublist:
  assumes m: "\<And>s g. m s = Some g \<Longrightarrow> sublist g s"
  shows "re_search m u = Some g \<Longrightarrow> sublist g u"
proof (induction u)
  case Nil
  then show ?case using m [of "[]" g] by simp
next
  case (Cons c cs)
  show ?case
  proof (cases "m (c # cs)")
    case None
    with Cons.prems have "re_search m cs = Some g" by simp
    then have "sublist g cs" by (rule Cons.IH)
    then show ?thesis by (simp add: sublist_Cons_right)
  next
    case (Some h)
    with Cons.prems have "h = g" by simp
    with Some show ?thesis using m [of "c # cs" g] by simp
  qed
qed

lemma after_lit_Some: "after_lit l s = Some r \<Longrightarrow> s = l @ r"
  by (auto simp: after_lit_def prefix_def split: if_splits)

lemma m_prep_sublist: "m_prep l s = Some g \<Longrightarrow> sublist g s"
proof -
  assume a: "m_prep l s = Some g"
  then obtain r where r: "after_lit l s = Some r" and g: "run1 barrio_char r = Some g"
    by (auto simp: m_prep_def split: option.splits)
  from g have "g = takeWhile barrio_char r" by (auto simp: run1_def Let_def split: if_splits)
  then have "prefix g r" by (simp add: takeWhile_is_prefix)
  moreover have "suffix r s" using after_lit_Some [OF r] by (simp add: suffix_def)
  ultimately show ?thesis
    by (blast intro: sublist_trans prefix_imp_sublist suffix_imp_sublist)
qed

lemma m_prep_end_sublist: "m_prep_end l s = Some g \<Longrightarrow> sublist g s"
proof -
  assume a: "m_prep_end l s = Some g"
  then obtain r where r: "after_lit l s = Some r" and g: "g = r"
    by (auto simp: m_prep_end_def split: option.splits if_splits)
  have "suffix r s" using after_lit_Some [OF r] by (simp add: suffix_def)
  then show ?thesis using g by (simp add: suffix_imp_sublist)
qed

lemma barrio_pattern_sublist:
  "m \<in> set barrio_patterns \<Longrightarrow> m s = Some g \<Longrightarrow> sublist g s"
  by (auto simp: barrio_patterns_def dest: m_prep_sublist m_prep_end_sublist)

lemma try_barrio_pattern_None:
  assumes nb: "\<forall>b \<in> set BARRIOS. \<not> sublist (py_lower b) (py_lower t)"
    and m: "m \<in> set barrio_patterns"
  shows "try_barrio_pattern m (py_lower t) = None"
proof (cases "re_search m (py_lower t)")
  case None
  then show ?thesis by (simp add: try_barrio_pattern_def)
next
  case (Some g)
  have sg: "sublist g (py_lower t)"
  proof (rule re_search_sublist [of m "py_lower t" g])
    show "\<And>s g. m s = Some g \<Longrightarrow> sublist g s" by (rule barrio_pattern_sublist [OF m])
    show "re_search m (py_lower t) = Some g" by (rule Some)
  qed
  have st: "sublist (py_strip g) (py_lower t)"
    using py_strip_sublist [of g] sg by (rule sublist_trans)
  have fixed: "py_lower (py_strip g) = py_strip g"
    using st by (rule sublist_of_lower_fixed)
  have sub: "sublist (py_lower (py_strip g)) (py_lower t)"
    using st by (simp only: fixed)
  have "py_lower (py_strip g) \<notin> set barrios_disponibles"
    using nb sub by (auto simp: barrios_disponibles_def)
  then show ?thesis using Some by (simp add: try_barrio_pattern_def Let_def)
qed

lemma first_some_all_None: "(\<forall>x \<in> set xs. x = None) \<Longrightarrow> first_some xs = None"
  by (induction xs rule: first_some.induct) auto

lemma detect_barrio_None:
  assumes nb: "\<forall>b \<in> set BARRIOS. \<not> sublist (py_lower b) (py_lower t)"
  shows "detect_barrio (py_lower t) = None"
proof -
  have "List.find (\<lambda>barrio. sublist barrio (py_lower t)) barrios_disponibles = None"
    using nb by (auto simp: find_None_iff barrios_disponibles_def)
  moreover have "first_some (map (\<lambda>m. try_barrio_pattern m (py_lower t)) barrio_patterns) = None"
    by (rule first_some_all_None) (auto simp: try_barrio_pattern_None [OF nb])
  ultimately show ?thesis by (simp add: detect_barrio_def)
qed


lemma getitem_setitem:
  "getitem (setitem d k v) k' = (if k' = k then Some v else getitem d k')"
  by (simp add: getitem_def setitem_def update_conv')




lemma put_None: "put k None d = d"
  by (simp add: put_def)

lemma lit_inj: "(lit a = lit b) = (a = b)"
  by (simp add: lit_def inj_map_eq_map inj_on_def)







text \<open>
  Claim C6. When no gazetteer name, no type word and no operation word occurs in the
  lower-cased text and none of the price, rooms and square-metre patterns matches it,
  the extractor returns the empty dictionary: no key is set at all.
\<close>

theorem C6_no_pattern_empty:
  assumes nb: "\<forall>b \<in> set BARRIOS. \<not> sublist (py_lower b) (py_lower t)"
    and nt: "\<forall>w \<in> set TIPOS. \<not> sublist (py_lower w) (py_lower t)"
    and no: "\<forall>w \<in> set OPERACIONES. \<not> sublist (py_lower w) (py_lower t)"
    and np: "\<forall>m \<in> set precio_patterns. re_search m (py_lower t) = None"
    and nd: "re_search (m_amount (lit ''desde '')) (py_lower t) = None"
    and nr: "re_search (m_count (lit ''amb'')) (py_lower t) = None"
            "re_search (m_count (lit ''ambiente'')) (py_lower t) = None"
    and ns: "re_search (m_count (lit ''m2'')) (py_lower t) = None"
            "re_search (m_count (lit ''metros'')) (py_lower t) = None"
  shows "detect_filters (py_lower t) = []"
proof -
  have 1: "detect_barrio (py_lower t) = None" by (rule detect_barrio_None [OF nb])
  have 2: "List.find (\<lambda>tipo. sublist tipo (py_lower t)) tipos_disponibles = None"
    using nt by (auto simp: find_None_iff tipos_disponibles_def)
  have 3: "List.find (\<lambda>operacion. sublist operacion (py_lower t)) operaciones_disponibles = None"
    using no by (auto simp: find_None_iff operaciones_disponibles_def)
  have 4: "detect_max_price (py_lower t) = None"
    unfolding detect_max_price_def
    by (rule first_some_all_None) (auto simp: try_precio_pattern_def np)
  have 5: "detect_min_price (py_lower t) = None"
    by (simp add: detect_min_price_def try_precio_pattern_def nd)
  have 6: "rooms_match (py_lower t) = None" by (simp add: rooms_match_def nr)
  have 7: "sqm_match (py_lower t) = None" by (simp add: sqm_match_def ns)
  show ?thesis by (simp add: detect_filters_def 1 2 3 4 5 6 7 put_None)
qed

theorem C6_no_pattern_empty_witness:
  "detect_filters (py_lower (lit ''Hola, necesito informacion'')) = []"
  by (rule C6_no_pattern_empty; simp add: ev)

section \<open>Properties of the filter merge\<close>

lemma setitem_distinct: "distinct (map fst d) \<Longrightarrow> distinct (map fst (setitem d k v))"
  by (simp add: setitem_def distinct_update)

lemma put_distinct: "distinct (map fst d) \<Longrightarrow> distinct (map fst (put k v d))"
  by (cases v) (simp_all add: put_def setitem_distinct)

lemma detect_filters_distinct: "distinct (map fst (detect_filters u))"
  by (simp add: detect_filters_def put_distinct)

lemma dict_update_Cons: "dict_update d ((k, v) # e) = dict_update (setitem d k v) e"
  by (simp add: dict_update_def)

lemma getitem_dict_update:
  "distinct (map fst e) \<Longrightarrow>
   getitem (dict_update d e) k = (case getitem e k of Some v \<Rightarrow> Some v | None \<Rightarrow> getitem d k)"
proof (induction e arbitrary: d)
  case Nil
  then show ?case by (simp add: dict_update_def getitem_def)
next
  case (Cons a e)
  obtain k' v' where a: "a = (k', v')" by (cases a)
  from Cons.prems a have d: "distinct (map fst e)" and notin: "k' \<notin> fst ` set e" by auto
  from notin have none: "getitem e k' = None" by (simp add: getitem_def map_of_eq_None_iff)
  show ?case
    using Cons.IH [OF d, of "setitem d k' v'"] none
    by (auto simp: a dict_update_Cons getitem_def setitem_def update_conv' split: option.splits)
qed

text \<open>
  Claim C1, as the code has it. The merged filter set is the explicit set updated with
  the detected one: a key the extractor detected maps to the detected value, whether
  or not the explicit set has it, and every other key keeps the explicit value.
\<close>

theorem C1_merge_detected_wins:
  "getitem (combined_filters (Some E) (py_lower T)) k =
     (case getitem (detect_filters (py_lower T)) k of
        Some v \<Rightarrow> Some v
      | None \<Rightarrow> getitem E k)"
  by (simp add: combined_filters_def getitem_dict_update detect_filters_distinct)

text \<open>
  Claim C1 as stated fails: with the explicit filter \<open>tipo = casa\<close> and a text in
  which the extractor detects \<open>tipo = departamento\<close> and a neighbourhood, the merged
  set maps \<open>tipo\<close> to the detected value.
\<close>

theorem C1_explicit_overridden:
  "getitem [(lit ''tipo'', PStr (lit ''casa''))] (lit ''tipo'') = Some (PStr (lit ''casa''))
   \<and> getitem (combined_filters (Some [(lit ''tipo'', PStr (lit ''casa''))])
        (py_lower (lit ''Departamento en Palermo''))) (lit ''tipo'')
      = Some (PStr (lit ''departamento''))
   \<and> combined_filters (Some [(lit ''tipo'', PStr (lit ''casa''))])
        (py_lower (lit ''Departamento en Palermo''))
      = [(lit ''tipo'', PStr (lit ''departamento'')),
         (lit ''neighborhood'', PStr (lit ''palermo''))]"
  by (simp add: ev combined_filters_def dict_update_def)

section \<open>Properties of the response shaper\<close>

lemma split_example: "py_split 10 llm_example =
   [lit ''1. Casa en Palermo '' @ [127968], lit ''2. PH en Boedo '' @ [127968], [], surviving_line]"
  by (simp add: llm_example_def surviving_line_def lit_def)

lemma clean_example: "clean_lines False (py_split 10 llm_example) = [surviving_line]"
  unfolding split_example by (simp add: ev_shape surviving_line_def)

lemma surviving_len: "length surviving_line = 19"
  by (simp add: surviving_line_def lit_def)

lemma shape_example: "shape_response llm_example 2 = generic_message 2"
  unfolding shape_response_def clean_example by (simp add: surviving_line_def lit_def py_strip_def isspace_def)

lemma generic2: "generic_message 2 = [9989] @ lit '' Encontr'' @ [233] @ lit '' 2 propiedades que coinciden con tu b'' @ [250] @
     lit ''squeda. Te las muestro abajo:''"
  by (simp add: generic_message_def str_nat.simps lit_def)

text \<open>
  Claim C2, as the code has it. On the example answer with two records the shaper
  drops both numbered lines and the blank line after them; the surviving text has 19
  characters, fewer than the threshold of 20, so the result is the generic
  confirmation message for two properties, and no line of the result starts a listing.
\<close>

theorem C2_example_generic_message:
  "clean_lines False (py_split 10 llm_example) = [surviving_line]
   \<and> length surviving_line = 19
   \<and> shape_response llm_example 2 = generic_message 2
   \<and> filter (\<lambda>l. listing_start (py_strip l)) (py_split 10 (shape_response llm_example 2)) = []"
proof -
  have "filter (\<lambda>l. listing_start (py_strip l)) (py_split 10 (shape_response llm_example 2)) = []"
    unfolding shape_example generic2 by (simp add: ev_shape)
  then show ?thesis by (simp add: clean_example surviving_len shape_example)
qed

text \<open>
  Claim C2 as stated fails: the returned text does not begin with the surviving line
  of the example.
\<close>

theorem C2_example_line_not_returned:
  "\<not> prefix surviving_line (shape_response llm_example 2)"
  unfolding shape_example generic2 by (simp add: surviving_line_def lit_def)

section \<open>Properties of the catalog query\<close>

lemma getitem_delete: "getitem (AList.delete k d) k' = (if k' = k then None else getitem d k')"
  by (simp add: getitem_def delete_conv')

lemma active_setitem_falsy:
  "\<not> truthy v \<Longrightarrow> active (setitem d k v) k' = active (AList.delete k d) k'"
  by (simp add: active_def getitem_setitem getitem_delete)

text \<open>
  Claim C9. A filter whose value is falsy (0, the empty string, None, False) gives the
  same query result as the filter set without that key: no condition is applied for
  it. With \<open>max_price = 0\<close> every row is returned.
\<close>

theorem C9_falsy_value_as_absent:
  assumes "\<not> truthy v"
  shows "query_properties num db (setitem fs k v) = query_properties num db (AList.delete k fs)"
proof -
  have eq: "where_clauses num (setitem fs k v) = where_clauses num (AList.delete k fs)"
    by (simp add: where_clauses_def active_setitem_falsy [OF assms])
  show ?thesis unfolding query_properties_def eq by (rule refl)
qed

theorem C9_falsy_value_as_absent_witness:
  "query_properties example_conv (Rows example_rows) (setitem [] (lit ''max_price'') (PInt 0))
       = [example_row (lit ''c'') 50 (lit ''ph''), example_row (lit ''b'') 90 (lit ''casa''),
          example_row (lit ''a'') 150 (lit ''casa'')]"
proof -
  have h: "\<not> truthy (PInt 0)" by simp
  from C9_falsy_value_as_absent [OF h, of example_conv "Rows example_rows" "[]" "lit ''max_price''"]
  show ?thesis by (simp add: ev_query lit_def)
qed

lemma active_in_values: "active fs k = Some v \<Longrightarrow> v \<in> snd ` set fs"
  by (auto simp: active_def getitem_def split: option.splits if_splits dest!: map_of_SomeD
      intro: rev_image_eqI)

lemma str_nat_digits: "c \<in> set (str_nat n) \<Longrightarrow> 48 \<le> c \<and> c \<le> 57"
proof (induction n rule: str_nat.induct)
  case (1 n)
  show ?case
  proof (cases "n < 10")
    case True
    with "1.prems" show ?thesis by (simp add: str_nat.simps [of n])
  next
    case False
    with "1.prems" have "c \<in> set (str_nat (n div 10)) \<or> c = 48 + n mod 10"
      by (auto simp: str_nat.simps [of n])
    then show ?thesis
    proof
      assume "c \<in> set (str_nat (n div 10))"
      with False show ?thesis using "1.IH" by blast
    next
      assume "c = 48 + n mod 10"
      then show ?thesis by simp
    qed
  qed
qed

lemma str_int_encodable: "list_all encodable (str_int i)"
  by (auto simp: encodable_def str_int_def list_all_iff dest!: str_nat_digits)

text \<open>The text of \<open>None\<close>, of a boolean and of an integer can always be encoded; the
  text of a string is the string.\<close>

lemma py_str_encodable:
  "list_all encodable (py_str num PNone)"
  "list_all encodable (py_str num (PBool b))"
  "list_all encodable (py_str num (PInt i))"
  "bind_param (PStr s) \<noteq> None \<Longrightarrow> list_all encodable (py_str num (PStr s))"
  by (simp_all add: str_int_encodable lit_def encodable_def split: if_splits)

lemma like_param_runs:
  assumes enc: "list_all encodable (py_str num v)" and "utf8_len (py_str num v) \<le> 49998"
  shows "\<not> clause_raises (BarrioLike, like_param num v)"
proof -
  have len: "utf8_len ([37] @ py_str num v @ [37]) = utf8_len (py_str num v) + 2"
    by (simp add: utf8_len_def)
  show ?thesis
    using enc len assms(2)
    by (simp add: clause_raises_def like_param_def pattern_too_long_def encodable_def)
qed

text \<open>A sufficient condition on the values alone: every value can be bound, and its
  text can be encoded and is short enough for a pattern.\<close>

lemma where_clauses_run:
  assumes "\<forall>v \<in> snd ` set fs. bind_param v \<noteq> None \<and> list_all encodable (py_str num v)
              \<and> utf8_len (py_str num v) \<le> 49998"
  shows "\<not> list_ex clause_raises (where_clauses num fs)"
proof -
  have a: "\<And>k v. active fs k = Some v \<Longrightarrow> bind_param v \<noteq> None
              \<and> list_all encodable (py_str num v) \<and> utf8_len (py_str num v) \<le> 49998"
    using assms active_in_values by blast
  have b: "\<And>f k. (\<And>v. active fs k = Some v \<Longrightarrow> \<not> clause_raises (f v)) \<Longrightarrow>
      \<not> list_ex clause_raises (opt_list (map_option f (active fs k)))"
    by (case_tac "active fs k") auto
  have like: "\<And>k v. active fs k = Some v \<Longrightarrow> \<not> clause_raises (BarrioLike, like_param num v)"
    using a like_param_runs by blast
  have plain: "\<And>k v op. active fs k = Some v \<Longrightarrow> op \<noteq> BarrioLike \<Longrightarrow> \<not> clause_raises (op, v)"
    using a by (simp add: clause_raises_def)
  show ?thesis
    unfolding where_clauses_def list_ex_append de_Morgan_disj
    by (intro conjI b; (erule like | (erule plain, simp)))
qed

lemma where_clauses_empty: "where_clauses num [] = []"
  by (simp add: where_clauses_def active_def getitem_def)

lemma query_properties_rows:
  assumes "\<not> list_ex clause_raises (where_clauses num fs)"
  shows "query_properties num (Rows rows) fs
           = sort_key precio (filter (\<lambda>r. list_all (satisfies num r) (where_clauses num fs)) rows)"
  using assms by (simp add: query_properties_def execute_select_def)

lemma query_properties_raises:
  assumes "list_ex clause_raises (where_clauses num fs)"
  shows "query_properties num db fs = []"
  using assms by (cases db) (simp_all add: query_properties_def execute_select_def)

lemma max_price_clause:
  assumes "getitem fs (lit ''max_price'') = Some (PInt a)" and "a \<noteq> 0"
  shows "(PrecioLe, PInt a) \<in> set (where_clauses num fs)"
  using assms by (simp add: where_clauses_def active_def)

lemma min_price_clause:
  assumes "getitem fs (lit ''min_price'') = Some (PInt a)" and "a \<noteq> 0"
  shows "(PrecioGe, PInt a) \<in> set (where_clauses num fs)"
  using assms by (simp add: where_clauses_def active_def)

text \<open>The price bounds are inclusive: a returned row lies within every integer
  bound that is present and not zero.\<close>

lemma query_respects_price_bounds:
  assumes r: "r \<in> set (query_properties num (Rows rows) fs)"
  shows "getitem fs (lit ''max_price'') = Some (PInt a) \<Longrightarrow> a \<noteq> 0 \<Longrightarrow> precio r \<le> real_of_int a"
    and "getitem fs (lit ''min_price'') = Some (PInt b) \<Longrightarrow> b \<noteq> 0 \<Longrightarrow> real_of_int b \<le> precio r"
proof -
  have ok: "\<not> list_ex clause_raises (where_clauses num fs)"
    using r query_properties_raises [of num fs "Rows rows"] by auto
  from r have all: "list_all (satisfies num r) (where_clauses num fs)"
    by (simp add: query_properties_rows [OF ok])
  {
    assume g: "getitem fs (lit ''max_price'') = Some (PInt a)" and nz: "a \<noteq> 0"
    from all max_price_clause [OF g nz] have s: "satisfies num r (PrecioLe, PInt a)"
      by (simp add: list_all_iff)
    then show "precio r \<le> real_of_int a"
      by (auto simp: satisfies_def split: option.splits if_splits)
  }
  {
    assume g: "getitem fs (lit ''min_price'') = Some (PInt b)" and nz: "b \<noteq> 0"
    from all min_price_clause [OF g nz] have s: "satisfies num r (PrecioGe, PInt b)"
      by (simp add: list_all_iff)
    then show "real_of_int b \<le> precio r"
      by (auto simp: satisfies_def split: option.splits if_splits)
  }
qed

text \<open>
  What the conditions mean on plain values. A neighborhood text without \<open>%\<close>,
  \<open>_\<close> and NUL is searched as a substring, letters \<open>A-Z\<close> without case; an
  integer bound that fits in 64 bits is an inclusive bound; a text for the
  operation or the type is compared exactly.
\<close>

lemma like_percent: "like_match [37] t"
  by (induction t) simp_all

lemma like_plain_prefix:
  assumes "\<forall>c \<in> set s. c \<noteq> 37 \<and> c \<noteq> 95"
  shows "like_match (s @ [37]) t = prefix (map ascii_lower s) (map ascii_lower t)"
  using assms
proof (induction s arbitrary: t)
  case Nil
  show ?case using like_percent [of t] by (simp del: like_match.simps)
next
  case (Cons p ps)
  then show ?case by (cases t) simp_all
qed

lemma like_percent_suffix:
  "like_match (37 # q) t = (\<exists>u. suffix u t \<and> like_match q u)"
proof (induction t)
  case Nil
  then show ?case by simp
next
  case (Cons c ts)
  have "like_match (37 # q) (c # ts) = (like_match q (c # ts) \<or> like_match (37 # q) ts)"
    by simp
  also have "\<dots> = (like_match q (c # ts) \<or> (\<exists>u. suffix u ts \<and> like_match q u))"
    by (simp only: Cons.IH)
  also have "\<dots> = (\<exists>u. suffix u (c # ts) \<and> like_match q u)"
    by (auto simp: suffix_Cons)
  finally show ?case .
qed

lemma suffix_prefix_sublist:
  "(\<exists>u. suffix u t \<and> prefix xs (map f u)) = sublist xs (map f t)"
proof
  assume "\<exists>u. suffix u t \<and> prefix xs (map f u)"
  then obtain u pre rest where "t = pre @ u" and "map f u = xs @ rest"
    by (auto simp: suffix_def prefix_def)
  then have "map f t = map f pre @ xs @ rest" by simp
  then show "sublist xs (map f t)" unfolding sublist_def by blast
next
  assume "sublist xs (map f t)"
  then obtain ps ss where e: "map f t = ps @ xs @ ss" unfolding sublist_def by blast
  let ?u = "drop (length ps) t"
  have "suffix ?u t" by (rule suffix_drop)
  moreover have "map f ?u = xs @ ss"
    using e by (simp add: drop_map [symmetric])
  ultimately show "\<exists>u. suffix u t \<and> prefix xs (map f u)" by (auto simp: prefix_def)
qed

lemma like_contains:
  assumes "\<forall>c \<in> set s. c \<noteq> 37 \<and> c \<noteq> 95"
  shows "like_match ([37] @ s @ [37]) t = sublist (map ascii_lower s) (map ascii_lower t)"
  using like_percent_suffix [of "s @ [37]" t] suffix_prefix_sublist [of t "map ascii_lower s" ascii_lower]
  by (simp add: like_plain_prefix [OF assms] del: like_match.simps)

lemma c_string_plain: "\<forall>c \<in> set s. c \<noteq> 0 \<Longrightarrow> c_string s = s"
  by (simp add: c_string_def takeWhile_eq_all_conv)

lemma barrio_like_substring:
  assumes plain: "\<forall>c \<in> set s. c \<noteq> 37 \<and> c \<noteq> 95 \<and> c \<noteq> 0"
    and bound: "bind_param (like_param num (PStr s)) \<noteq> None"
  shows "satisfies num r (BarrioLike, like_param num (PStr s))
           = sublist (map ascii_lower s) (map ascii_lower (c_string (barrio r)))"
proof -
  have p: "\<forall>c \<in> set s. c \<noteq> 37 \<and> c \<noteq> 95" using plain by blast
  have "\<forall>c \<in> set (37 # s @ [37]). c \<noteq> 0" using plain by auto
  then have c: "c_string (37 # s @ [37]) = 37 # s @ [37]" by (rule c_string_plain)
  show ?thesis
    using bound like_contains [OF p, of "c_string (barrio r)"]
    by (simp add: satisfies_def like_param_def c split: if_splits del: like_match.simps)
qed

lemma satisfies_plain:
  assumes "- 9223372036854775808 \<le> a" and "a \<le> 9223372036854775807"
  shows "satisfies num r (PrecioGe, PInt a) = (real_of_int a \<le> precio r)"
    and "satisfies num r (PrecioLe, PInt a) = (precio r \<le> real_of_int a)"
    and "satisfies num r (AmbientesGe, PInt a) = (a \<le> ambientes r)"
    and "satisfies num r (MetrosGe, PInt a) = (real_of_int a \<le> metros_cuadrados r)"
    and "satisfies num r (MetrosLe, PInt a) = (metros_cuadrados r \<le> real_of_int a)"
  using assms by (simp_all add: satisfies_def)

lemma satisfies_exact:
  assumes "bind_param (PStr s) \<noteq> None"
  shows "satisfies num r (OperacionEq, PStr s) = (operacion r = s)"
    and "satisfies num r (TipoEq, PStr s) = (tipo r = s)"
  using assms by (simp_all add: satisfies_def split: if_splits)

text \<open>A value that cannot be bound does no harm under a key the query does not read.\<close>

lemma unread_key_ignored:
  "query_properties example_conv (Rows [example_row (lit ''a'') 150 (lit ''casa'')])
        [(lit ''color'', PInt 9223372036854775808)]
     = [example_row (lit ''a'') 150 (lit ''casa'')]"
  by (simp add: ev_query lit_def)

text \<open>
  Claim C7, as the code has it. When a condition of the filter set makes the statement
  raise (the value of a present, truthy filter that the query reads cannot be bound, or
  gives a pattern that is too long), or when the catalog cannot be read, the query
  returns the empty list. Otherwise it returns exactly the stored rows that satisfy
  every condition of the filter set, ascending by price. With the empty filter set
  nothing raises and every stored row is returned, ascending by price.
\<close>

theorem C7_query_sorted_conjunctive:
  "(if list_ex clause_raises (where_clauses num fs)
    then query_properties num (Rows rows) fs = []
    else sorted (map precio (query_properties num (Rows rows) fs))
       \<and> mset (query_properties num (Rows rows) fs)
           = filter_mset (\<lambda>r. list_all (satisfies num r) (where_clauses num fs)) (mset rows))
   \<and> query_properties num Unavailable fs = []
   \<and> sorted (map precio (query_properties num (Rows rows) []))
   \<and> mset (query_properties num (Rows rows) []) = mset rows"
proof -
  have e: "query_properties num (Rows rows) [] = sort_key precio rows"
    using query_properties_rows [of num "[]" rows] by (simp add: where_clauses_empty)
  have u: "query_properties num Unavailable fs = []"
    by (simp add: query_properties_def)
  show ?thesis
  proof (cases "list_ex clause_raises (where_clauses num fs)")
    case True
    then show ?thesis using e u by (simp add: query_properties_raises)
  next
    case False
    then show ?thesis using e u by (simp add: query_properties_rows)
  qed
qed

theorem C7_query_sorted_conjunctive_witness:
  "query_properties example_conv (Rows example_rows)
        [(lit ''max_price'', PInt 100), (lit ''tipo'', PStr (lit ''casa''))]
       = [example_row (lit ''b'') 90 (lit ''casa'')]"
proof -
  have w: "where_clauses example_conv [(lit ''max_price'', PInt 100), (lit ''tipo'', PStr (lit ''casa''))]
      = [(PrecioLe, PInt 100), (TipoEq, PStr (lit ''casa''))]"
    by (simp add: ev_query lit_def)
  have m: "mset (query_properties example_conv (Rows example_rows)
        [(lit ''max_price'', PInt 100), (lit ''tipo'', PStr (lit ''casa''))])
      = {#example_row (lit ''b'') 90 (lit ''casa'')#}"
    using C7_query_sorted_conjunctive [of example_conv
        "[(lit ''max_price'', PInt 100), (lit ''tipo'', PStr (lit ''casa''))]"
        example_rows]
    unfolding w by (simp add: ev_query lit_def)
  then show ?thesis by (simp add: mset_single_iff_right)
qed

text \<open>
  Claim C7 as stated fails: the text \<open>Hasta 9223372036854775808\<close> gives a price
  bound that does not fit in 64 signed bits; binding it raises, and the query returns
  the empty list although the stored row is below the bound.
\<close>

theorem C7_oversized_integer_counterexample:
  "detect_filters (py_lower (lit ''Hasta 9223372036854775808''))
     = [(lit ''max_price'', PInt 9223372036854775808)]
   \<and> precio (example_row (lit ''a'') 150 (lit ''casa'')) \<le> 9223372036854775808
   \<and> query_properties example_conv (Rows [example_row (lit ''a'') 150 (lit ''casa'')])
        [(lit ''max_price'', PInt 9223372036854775808)] = []"
  by (simp add: ev ev_query)

section \<open>Properties of the chat orchestrator\<close>

lemma hola_len: "length (lit ''hola'') = 4" by (simp add: lit_def)

lemma hola_ne: "lit ''hola'' \<noteq> []" by (simp add: lit_def)

lemma hola_strip: "py_strip (lit ''hola'') = lit ''hola''"
  by (simp add: lit_def py_strip_def isspace_def)

lemma hola_lower: "py_lower (lit ''hola'') = lit ''hola''"
  by (simp add: lit_def py_lower_def lower_seq_def lower_cp_def)

lemma hola_saludo: "es_saludo_inicial (lit ''hola'') None"
  by (simp add: es_saludo_inicial_def palabras_bienvenida_def)

text \<open>
  In backend/main-ai.py the greeting branch answers \<open>hola\<close> without previous context
  with no completion attempt, and with the welcome message whenever the request
  succeeds.
\<close>

lemma chat_hola_no_gateway:
  "snd (snd (chat e srv \<lparr>req_message = lit ''hola'', req_channel = c, req_filters = f,
                         req_contexto_anterior = None, req_es_seguimiento = s\<rparr>)) = []
   \<and> gemini_calls (metrics (fst (snd (chat e srv
         \<lparr>req_message = lit ''hola'', req_channel = c, req_filters = f,
          req_contexto_anterior = None, req_es_seguimiento = s\<rparr>))))
       = gemini_calls (metrics srv)
   \<and> (\<forall>r. fst (chat e srv \<lparr>req_message = lit ''hola'', req_channel = c, req_filters = f,
                         req_contexto_anterior = None, req_es_seguimiento = s\<rparr>) = Inr r
          \<longrightarrow> response r = welcome_message)"
  by (simp add: chat_def Let_def hola_len hola_ne hola_strip hola_lower hola_saludo
        bump_requests_def bump_searches_def bump_success_def bump_failures_def)

lemma hola_detect: "detect_filters (lit ''hola'') = []"
  by (simp add: ev)

lemma web_strip: "py_strip (lit ''web'') = lit ''web''"
  by (simp add: lit_def py_strip_def isspace_def)

lemma reply_strip: "py_strip example_reply = example_reply"
  by (simp add: example_reply_def lit_def py_strip_def isspace_def)

lemma example_gateway_ok:
  "call_gemini_with_rotation (generate_content example_env_ok) (API_KEYS example_env_ok) p
     = (example_reply, [lit ''k1''])"
  by (simp add: call_gemini_with_rotation_def example_env_ok_def reply_strip)

text \<open>
  Claim C4 fails on the chat endpoint of main.py: it has no greeting branch. For the
  message \<open>hola\<close> without previous context it calls the gateway, which attempts a
  completion with the configured key, and it returns the gateway's text, not the
  welcome message.
\<close>

theorem C4_flask_hola_calls_gateway:
  "chat_flask example_env_ok example_server (Object [(lit ''message'', PStr (lit ''hola''))])
     = (Inr \<lparr>response = example_reply, results_count = None, search_performed = False,
             propiedades = None\<rparr>,
        example_server\<lparr>log_db := Logs [\<lparr>log_channel = lit ''web'', user_message = lit ''hola'',
           bot_response = example_reply, log_search_performed = False,
           log_results_count = 0\<rparr>]\<rparr>,
        [lit ''k1''])
   \<and> example_reply \<noteq> welcome_message"
proof -
  have m: "map_of [(lit ''message'', PStr (lit ''hola''))] (lit ''message'') = Some (PStr (lit ''hola''))"
    by simp
  have c: "flask_channel [(lit ''message'', PStr (lit ''hola''))] = Some (lit ''web'')"
    by (simp add: flask_channel_def lit_inj web_strip)
  have f: "flask_filters [(lit ''message'', PStr (lit ''hola''))] = Some []"
    by (simp add: flask_filters_def lit_inj)
  have d: "example_reply \<noteq> welcome_message"
    by (simp add: example_reply_def welcome_message_def lit_def)
  show ?thesis
    by (simp add: chat_flask_def flask_answer_def Let_def m c f d hola_ne hola_strip hola_lower
        hola_detect combined_filters_def dict_update_def example_gateway_ok
        get_historial_canal_def log_conversation_def example_server_def)
qed

text \<open>
  In backend/main-ai.py the same message is answered 500 when a returned row does not
  validate against the response model.
\<close>

lemma chat_hola_invalid_row_server_error:
  "fst (chat example_env example_server_null
          \<lparr>req_message = lit ''hola'', req_channel = lit ''web'',
           req_filters = Some [(lit ''tipo'', PStr (lit ''casa''))],
           req_contexto_anterior = None, req_es_seguimiento = None\<rparr>) = Inl 500"
proof -
  have c: "combined_filters (Some [(lit ''tipo'', PStr (lit ''casa''))]) (lit ''hola'')
     = [(lit ''tipo'', PStr (lit ''casa''))]"
    by (simp add: combined_filters_def dict_update_def hola_detect)
  have q: "query_properties example_conv
        (Rows [(example_row (lit ''d'') 70 (lit ''casa''))\<lparr>descripcion := None\<rparr>])
        [(lit ''tipo'', PStr (lit ''casa''))]
     = [(example_row (lit ''d'') 70 (lit ''casa''))\<lparr>descripcion := None\<rparr>]"
    by (simp add: ev_query lit_def)
  show ?thesis
    by (simp add: chat_def Let_def hola_len hola_ne hola_strip hola_lower hola_saludo c q
        example_env_def example_server_null_def example_server_def row_valid_def)
qed

text \<open>
  A request whose message is the empty string is refused by the request model of
  backend/main-ai.py (422) and by the first check of main.py (400), and nothing is
  logged.
\<close>

lemma chat_empty_message_refused:
  "chat e srv (request\<lparr>req_message := []\<rparr>) = (Inl 422, srv, [])
   \<and> chat_flask e srv (Object [(lit ''message'', PStr [])]) = (Inl 400, srv, [])"
  by (simp add: chat_def chat_flask_def)

text \<open>
  Claim C8 fails for a message of white space only, which is empty after \<open>strip()\<close>.
  In backend/main-ai.py it passes the request model and the handler raises the 400
  error for an empty message, but inside the \<open>try\<close> whose handler turns every
  exception into the 500 error: the answer is a server error (no turn is logged). In
  main.py the emptiness check comes before \<open>strip()\<close>: the message is processed, the
  gateway is called and a turn with an empty user message is logged.
\<close>

theorem C8_blank_message_not_client_error:
  "fst (chat e srv (request\<lparr>req_message := lit ''  ''\<rparr>)) = Inl 500
   \<and> log_db (fst (snd (chat e srv (request\<lparr>req_message := lit ''  ''\<rparr>)))) = log_db srv
   \<and> chat_flask example_env_ok example_server (Object [(lit ''message'', PStr (lit ''  ''))])
     = (Inr \<lparr>response = example_reply, results_count = None, search_performed = False,
             propiedades = None\<rparr>,
        example_server\<lparr>log_db := Logs [\<lparr>log_channel = lit ''web'', user_message = [],
           bot_response = example_reply, log_search_performed = False,
           log_results_count = 0\<rparr>]\<rparr>,
        [lit ''k1''])"
proof -
  have b: "py_strip (lit ''  '') = []" and n: "lit ''  '' \<noteq> []" and l: "length (lit ''  '') = 2"
    by (simp_all add: lit_def py_strip_def isspace_def)
  have m: "map_of [(lit ''message'', PStr (lit ''  ''))] (lit ''message'') = Some (PStr (lit ''  ''))"
    by simp
  have c: "flask_channel [(lit ''message'', PStr (lit ''  ''))] = Some (lit ''web'')"
    by (simp add: flask_channel_def lit_inj web_strip)
  have f: "flask_filters [(lit ''message'', PStr (lit ''  ''))] = Some []"
    by (simp add: flask_filters_def lit_inj)
  have d: "detect_filters [] = []"
    by (simp add: ev)
  have 1: "fst (chat e srv (request\<lparr>req_message := lit ''  ''\<rparr>)) = Inl 500
     \<and> log_db (fst (snd (chat e srv (request\<lparr>req_message := lit ''  ''\<rparr>)))) = log_db srv"
    by (simp add: chat_def Let_def b l)
  have 2: "chat_flask example_env_ok example_server (Object [(lit ''message'', PStr (lit ''  ''))])
     = (Inr \<lparr>response = example_reply, results_count = None, search_performed = False,
             propiedades = None\<rparr>,
        example_server\<lparr>log_db := Logs [\<lparr>log_channel = lit ''web'', user_message = [],
           bot_response = example_reply, log_search_performed = False,
           log_results_count = 0\<rparr>]\<rparr>,
        [lit ''k1''])"
    by (simp add: chat_flask_def flask_answer_def Let_def m c f n b d py_lower_def
        combined_filters_def dict_update_def example_gateway_ok
        get_historial_canal_def log_conversation_def example_server_def)
  from 1 2 show ?thesis by simp
qed

text \<open>
  Claim C10. In a successful response, \<open>search_performed\<close> holds exactly when the
  merged filter set is not empty; then the records are present and \<open>results_count\<close>
  is their number; otherwise both are absent.
\<close>

theorem C10_response_fields_consistent:
  assumes "fst (chat e srv request) = Inr r"
  shows "search_performed r
           = (combined_filters (req_filters request)
                (py_lower (py_strip (req_message request))) \<noteq> [])
       \<and> (if search_performed r
          then (\<exists>rs. propiedades r = Some rs \<and> results_count r = Some (length rs))
          else propiedades r = None \<and> results_count r = None)"
  using assms
  by (auto simp: chat_def Let_def split: if_splits)

lemma example_combined:
  "combined_filters (Some [(lit ''tipo'', PStr (lit ''casa''))]) (lit ''hola'')
     = [(lit ''tipo'', PStr (lit ''casa''))]"
  by (simp add: combined_filters_def dict_update_def hola_detect)

lemma example_query:
  "query_properties example_conv (Rows example_rows) [(lit ''tipo'', PStr (lit ''casa''))]
     = [example_row (lit ''b'') 90 (lit ''casa''), example_row (lit ''a'') 150 (lit ''casa'')]"
  by (simp add: ev_query lit_def)

lemma example_chat:
  "fst (chat example_env example_server
          \<lparr>req_message = lit ''hola'', req_channel = lit ''web'',
           req_filters = Some [(lit ''tipo'', PStr (lit ''casa''))],
           req_contexto_anterior = None, req_es_seguimiento = None\<rparr>)
    = Inr \<lparr>response = welcome_message, results_count = Some 2, search_performed = True,
           propiedades = Some [example_row (lit ''b'') 90 (lit ''casa''),
                               example_row (lit ''a'') 150 (lit ''casa'')]\<rparr>"
  by (simp add: chat_def Let_def hola_len hola_ne hola_strip hola_lower hola_saludo
        example_combined example_query example_env_def example_server_def row_valid_def
        example_row_def)

theorem C10_response_fields_consistent_witness:
  "\<exists>rs. propiedades \<lparr>response = welcome_message, results_count = Some 2,
                  search_performed = True,
                  propiedades = Some [example_row (lit ''b'') 90 (lit ''casa''),
                                      example_row (lit ''a'') 150 (lit ''casa'')]\<rparr> = Some rs
        \<and> results_count \<lparr>response = welcome_message, results_count = Some 2,
                  search_performed = True,
                  propiedades = Some [example_row (lit ''b'') 90 (lit ''casa''),
                                      example_row (lit ''a'') 150 (lit ''casa'')]\<rparr>
            = Some (length rs)"
  using C10_response_fields_consistent [OF example_chat] by simp

end
